theory Spec2Isabelle
  imports Main "HOL-Library.Word"
begin

unbundle bit_operations_syntax

section \<open>up_vfork (os/arch/arm/src/common/up_vfork.c)\<close>

text \<open>
  A shallow embedding of \<^verbatim>\<open>up_vfork\<close>, the ARM completion phase of \<^verbatim>\<open>vfork()\<close>.
  Addresses, \<^verbatim>\<open>uint32_t\<close> and \<^verbatim>\<open>size_t\<close> values are 32-bit words, so every
  subtraction and comparison of the source wraps and compares as the C code does.
  TCBs live in a store indexed by their address; the byte memory holding the stacks is a
  second store. The debug print statements (\<^verbatim>\<open>svdbg\<close>, \<^verbatim>\<open>sdbg\<close>) have no effect
  on the state and are left out.
\<close>

type_synonym u32 = "32 word"
type_synonym u8 = "8 word"

subsection \<open>Data\<close>

text \<open>\<^verbatim>\<open>struct vfork_s\<close>: the context captured by the \<^verbatim>\<open>vfork()\<close> trampoline.\<close>

record vfork_s =
  r4 :: u32
  r5 :: u32
  r6 :: u32
  r7 :: u32
  r8 :: u32
  r9 :: u32
  r10 :: u32
  fp :: u32
  sp :: u32
  lr :: u32

text \<open>
  \<^verbatim>\<open>struct xcpt_syscall_s\<close>: one nested system-call return record. The header declaring
  it is not part of the sources at hand; the record carries every field that
  \<^verbatim>\<open>up_vfork\<close> names on some platform.
\<close>

record xcpt_syscall_s =
  sysreturn :: u32
  cpsr :: u32
  excreturn :: u32

text \<open>
  \<^verbatim>\<open>struct xcptcontext\<close>: the saved-register array, indexed by the \<^verbatim>\<open>REG_*\<close>
  constants, and the nested system-call records with their count.
\<close>

record xcptcontext =
  regs :: "nat \<Rightarrow> u32"
  nsyscalls :: nat
  syscall :: "nat \<Rightarrow> xcpt_syscall_s"

text \<open>\<^verbatim>\<open>struct tcb_s\<close>, restricted to the fields that \<^verbatim>\<open>up_vfork\<close> reads or writes.\<close>

record tcb_s =
  pid :: int
  flags :: u32
  adj_stack_size :: u32
  stack_alloc_ptr :: u32
  adj_stack_ptr :: u32
  xcp :: xcptcontext

text \<open>\<^verbatim>\<open>struct task_tcb_s\<close>: a task TCB, whose first member \<^verbatim>\<open>cmn\<close> is the common TCB.\<close>

record task_tcb_s =
  cmn :: tcb_s

text \<open>
  The build configuration: the \<^verbatim>\<open>CONFIG_*\<close> symbols tested by the preprocessor and the
  constants that come from headers outside this file (\<^verbatim>\<open>STACK_ALIGNMENT\<close>,
  \<^verbatim>\<open>TCB_FLAG_TTYPE_MASK\<close>, the \<^verbatim>\<open>REG_*\<close> indices of the saved-register array).
\<close>

datatype arm_core =
  CORTEXA5 | CORTEXA8 | CORTEXR4 | CORTEXR4F
  | CORTEXM0 | CORTEXM3 | CORTEXM4 | CORTEXM7 | CORTEXM33 | CORTEXM55
  | OTHER_CORE

record build_config =
  CONFIG_ARCH :: arm_core
  CONFIG_BUILD_KERNEL :: bool
  CONFIG_BUILD_PROTECTED :: bool
  CONFIG_LIB_SYSCALL :: bool
  CONFIG_DEBUG :: bool
  CONFIG_DEBUG_MM_HEAPINFO :: bool
  STACK_ALIGNMENT :: u32
  TCB_FLAG_TTYPE_MASK :: u32
  REG_R0 :: nat
  REG_R4 :: nat
  REG_R5 :: nat
  REG_R6 :: nat
  REG_R7 :: nat
  REG_R8 :: nat
  REG_R9 :: nat
  REG_R10 :: nat
  REG_FP :: nat
  REG_SP :: nat

text \<open>Calls that leave \<^verbatim>\<open>up_vfork\<close>, in the order they are made.\<close>

datatype event =
  Ev_task_vforksetup u32
  | Ev_up_create_stack u32 u32 u32
  | Ev_task_vforkabort u32 int
  | Ev_heapinfo_exclude_stacksize u32
  | Ev_heapinfo_set_stack_node u32 int
  | Ev_memcpy u32 u32 u32
  | Ev_task_vforkstart u32
  | Ev_scheduled u32

record kernel_state =
  running :: u32
  tcbs :: "u32 \<Rightarrow> task_tcb_s"
  mem :: "u32 \<Rightarrow> u8"
  trace :: "event list"

text \<open>
  The result of the stack allocator: its return code and, on success, the bounds it
  reports in the TCB.
\<close>

record stack_alloc =
  sa_ret :: int
  sa_alloc_ptr :: u32
  sa_adj_ptr :: u32
  sa_adj_size :: u32

text \<open>
  The behaviour of the collaborators that \<^verbatim>\<open>up_vfork\<close> calls: which child TCB the
  lifecycle manager hands out for an entry point (or none), what the allocator answers to a
  request of a given size and task type, and whether activating the child succeeds.
\<close>

record externals =
  new_child :: "u32 \<Rightarrow> (u32 \<times> task_tcb_s) option"
  alloc_stack :: "u32 \<Rightarrow> u32 \<Rightarrow> stack_alloc"
  activate :: "u32 \<Rightarrow> int"

datatype outcome = Returned int | AssertFailed

definition OK :: int where
  "OK = 0"

definition ERROR :: int where
  "ERROR = - 1"

subsection \<open>Collaborators\<close>

definition log_event :: "event \<Rightarrow> kernel_state \<Rightarrow> kernel_state" where
  "log_event e s = s\<lparr>trace := trace s @ [e]\<rparr>"

text \<open>
  Modelled from the spec: \<^verbatim>\<open>this_task()\<close> (scheduler, not in this file) resolves the
  currently running task, the parent.
\<close>

definition this_task :: "kernel_state \<Rightarrow> u32" where
  "this_task s = running s"

text \<open>
  Modelled from the spec: \<^verbatim>\<open>task_vforksetup\<close> (not in this file) allocates and
  initialises the child TCB for an entry point and returns its handle, or fails and
  returns no handle, having allocated nothing.
\<close>

definition task_vforksetup :: "externals \<Rightarrow> u32 \<Rightarrow> kernel_state \<Rightarrow> u32 option \<times> kernel_state" where
  "task_vforksetup ext entry s =
     (case new_child ext entry of
        None \<Rightarrow> (None, log_event (Ev_task_vforksetup entry) s)
      | Some (child, t) \<Rightarrow>
          (Some child, log_event (Ev_task_vforksetup entry) (s\<lparr>tcbs := (tcbs s)(child := t)\<rparr>)))"

text \<open>
  Modelled from the spec: \<^verbatim>\<open>up_create_stack\<close> (not in this file), given a requested
  size and a task classification, allocates a stack region and reports its usable bounds in
  the TCB; on failure it returns a status other than \<^verbatim>\<open>OK\<close>.
\<close>

definition up_create_stack :: "externals \<Rightarrow> u32 \<Rightarrow> u32 \<Rightarrow> u32 \<Rightarrow> kernel_state \<Rightarrow> int \<times> kernel_state" where
  "up_create_stack ext tcb stack_size ttype s =
     (let r = alloc_stack ext stack_size ttype;
          s1 = log_event (Ev_up_create_stack tcb stack_size ttype) s
      in if sa_ret r = OK
         then (OK, s1\<lparr>tcbs := (tcbs s1)(tcb :=
                 cmn_update (\<lambda>c. c\<lparr>stack_alloc_ptr := sa_alloc_ptr r,
                                     adj_stack_ptr := sa_adj_ptr r,
                                     adj_stack_size := sa_adj_size r\<rparr>) (tcbs s1 tcb))\<rparr>)
         else (sa_ret r, s1))"

text \<open>
  Modelled from the spec: \<^verbatim>\<open>task_vforkabort\<close> (not in this file) releases the child
  TCB and its stack, with the reason code attached.
\<close>

definition task_vforkabort :: "u32 \<Rightarrow> int \<Rightarrow> kernel_state \<Rightarrow> kernel_state" where
  "task_vforkabort child errcode s = log_event (Ev_task_vforkabort child errcode) s"

text \<open>
  Modelled from the spec: \<^verbatim>\<open>task_vforkstart\<close> (not in this file) makes the child
  runnable and returns its task id; on its own failure it performs abort-with-cleanup and
  returns the error sentinel. The comment at the call site says the same: on a failure,
  \<^verbatim>\<open>task_vforkstart()\<close> discards the TCB by calling \<^verbatim>\<open>task_vforkabort()\<close>.
\<close>

definition task_vforkstart :: "externals \<Rightarrow> u32 \<Rightarrow> kernel_state \<Rightarrow> outcome \<times> kernel_state" where
  "task_vforkstart ext child s =
     (let s1 = log_event (Ev_task_vforkstart child) s;
          ret = activate ext child
      in if ret < OK
         then (Returned ERROR, task_vforkabort child (- ret) s1)
         else (Returned (pid (cmn (tcbs s1 child))), log_event (Ev_scheduled child) s1))"

text \<open>
  \<^verbatim>\<open>memcpy(dst, src, n)\<close>: the \<open>n\<close> bytes from \<open>dst\<close> on receive the bytes that were at
  the same offsets from \<open>src\<close>; addresses wrap at \<open>2^32\<close>.
\<close>

definition memcpy :: "u32 \<Rightarrow> u32 \<Rightarrow> u32 \<Rightarrow> kernel_state \<Rightarrow> kernel_state" where
  "memcpy dst src n s =
     log_event (Ev_memcpy dst src n)
       (s\<lparr>mem := (\<lambda>a. if a - dst < n then mem s (src + (a - dst)) else mem s a)\<rparr>)"

subsection \<open>The function\<close>

text \<open>\<^verbatim>\<open>child->cmn.xcp.regs[i] = v\<close>\<close>

definition set_reg :: "u32 \<Rightarrow> nat \<Rightarrow> u32 \<Rightarrow> kernel_state \<Rightarrow> kernel_state" where
  "set_reg child i v s =
     s\<lparr>tcbs := (tcbs s)(child :=
         cmn_update (xcp_update (regs_update (\<lambda>r. r(i := v)))) (tcbs s child))\<rparr>"

text \<open>\<^verbatim>\<open>child->cmn.xcp.syscall[i] = v\<close>\<close>

definition set_syscall :: "u32 \<Rightarrow> nat \<Rightarrow> xcpt_syscall_s \<Rightarrow> kernel_state \<Rightarrow> kernel_state" where
  "set_syscall child i v s =
     s\<lparr>tcbs := (tcbs s)(child :=
         cmn_update (xcp_update (syscall_update (\<lambda>r. r(i := v)))) (tcbs s child))\<rparr>"

text \<open>\<^verbatim>\<open>child->cmn.xcp.nsyscalls = n\<close>\<close>

definition set_nsyscalls :: "u32 \<Rightarrow> nat \<Rightarrow> kernel_state \<Rightarrow> kernel_state" where
  "set_nsyscalls child n s =
     s\<lparr>tcbs := (tcbs s)(child :=
         cmn_update (xcp_update (nsyscalls_update (\<lambda>_. n))) (tcbs s child))\<rparr>"

text \<open>
  The body of the loop over the nested system-call records: \<^verbatim>\<open>sysreturn\<close> always, and
  then the field that the \<^verbatim>\<open>#if\<close> chain selects. A configuration that reaches
  \<^verbatim>\<open>#error Missing logic\<close> does not build; \<open>syscall_logic_defined\<close> says that the
  chain selects a branch.
\<close>

definition syscall_logic_defined :: "build_config \<Rightarrow> bool" where
  "syscall_logic_defined cfg =
     (((CONFIG_ARCH cfg = CORTEXA5 \<or> CONFIG_ARCH cfg = CORTEXA8) \<and> CONFIG_BUILD_KERNEL cfg)
      \<or> CONFIG_ARCH cfg = CORTEXR4 \<or> CONFIG_ARCH cfg = CORTEXR4F
      \<or> CONFIG_ARCH cfg = CORTEXM3 \<or> CONFIG_ARCH cfg = CORTEXM4
      \<or> CONFIG_ARCH cfg = CORTEXM0 \<or> CONFIG_ARCH cfg = CORTEXM7
      \<or> CONFIG_ARCH cfg = CORTEXM33 \<or> CONFIG_ARCH cfg = CORTEXM55)"

definition copy_syscall :: "build_config \<Rightarrow> xcpt_syscall_s \<Rightarrow> xcpt_syscall_s \<Rightarrow> xcpt_syscall_s" where
  "copy_syscall cfg src dst =
     (let d = dst\<lparr>sysreturn := sysreturn src\<rparr>
      in if (CONFIG_ARCH cfg = CORTEXA5 \<or> CONFIG_ARCH cfg = CORTEXA8) \<and> CONFIG_BUILD_KERNEL cfg
         then d\<lparr>cpsr := cpsr src\<rparr>
         else if CONFIG_ARCH cfg = CORTEXR4 \<or> CONFIG_ARCH cfg = CORTEXR4F
         then (if CONFIG_BUILD_PROTECTED cfg then d\<lparr>cpsr := cpsr src\<rparr> else d)
         else if CONFIG_ARCH cfg = CORTEXM3 \<or> CONFIG_ARCH cfg = CORTEXM4
               \<or> CONFIG_ARCH cfg = CORTEXM0 \<or> CONFIG_ARCH cfg = CORTEXM7
               \<or> CONFIG_ARCH cfg = CORTEXM33 \<or> CONFIG_ARCH cfg = CORTEXM55
         then d\<lparr>excreturn := excreturn src\<rparr>
         else d)"

text \<open>\<^verbatim>\<open>for (index = 0; index < parent->xcp.nsyscalls; index++)\<close>, from \<open>index\<close> on.\<close>

function syscall_loop :: "build_config \<Rightarrow> u32 \<Rightarrow> u32 \<Rightarrow> nat \<Rightarrow> kernel_state \<Rightarrow> kernel_state" where
  "syscall_loop cfg parent child index s =
     (if index < nsyscalls (xcp (cmn (tcbs s parent)))
      then syscall_loop cfg parent child (index + 1)
             (set_syscall child index
                (copy_syscall cfg (syscall (xcp (cmn (tcbs s parent))) index)
                                  (syscall (xcp (cmn (tcbs s child))) index)) s)
      else s)"
  by pat_completeness auto
termination
  by (relation "measure (\<lambda>(cfg, parent, child, index, s). nsyscalls (xcp (cmn (tcbs s parent))) - index)")
     (auto simp: set_syscall_def)

text \<open>Lines 231 to 266: the replication of the nested system-call records.\<close>

definition vfork_syscalls :: "build_config \<Rightarrow> u32 \<Rightarrow> u32 \<Rightarrow> kernel_state \<Rightarrow> kernel_state" where
  "vfork_syscalls cfg parent child s =
     (if CONFIG_LIB_SYSCALL cfg
      then (if nsyscalls (xcp (cmn (tcbs s parent))) > 0
            then (let s1 = syscall_loop cfg parent child 0 s
                  in set_nsyscalls child (nsyscalls (xcp (cmn (tcbs s1 parent)))) s1)
            else s)
      else s)"

text \<open>Lines 188 to 229: the stack copy, the frame pointer and the saved registers.\<close>

definition vfork_transfer :: "build_config \<Rightarrow> vfork_s \<Rightarrow> u32 \<Rightarrow> u32 \<Rightarrow> u32 \<Rightarrow> kernel_state \<Rightarrow> kernel_state" where
  "vfork_transfer cfg context parent child stacksize s =
     (let stackutil = adj_stack_ptr (cmn (tcbs s parent)) - sp context;
          newsp = adj_stack_ptr (cmn (tcbs s child)) - stackutil;
          s1 = memcpy newsp (sp context) stackutil s;
          newfp =
            (if fp context \<le> adj_stack_ptr (cmn (tcbs s1 parent))
                \<and> fp context \<ge> adj_stack_ptr (cmn (tcbs s1 parent)) - stacksize
             then (let frameutil = adj_stack_ptr (cmn (tcbs s1 parent)) - fp context
                   in adj_stack_ptr (cmn (tcbs s1 child)) - frameutil)
             else fp context);
          s2 = set_reg child (REG_R4 cfg) (r4 context) s1;
          s3 = set_reg child (REG_R5 cfg) (r5 context) s2;
          s4 = set_reg child (REG_R6 cfg) (r6 context) s3;
          s5 = set_reg child (REG_R7 cfg) (r7 context) s4;
          s6 = set_reg child (REG_R8 cfg) (r8 context) s5;
          s7 = set_reg child (REG_R9 cfg) (r9 context) s6;
          s8 = set_reg child (REG_R10 cfg) (r10 context) s7;
          s9 = set_reg child (REG_FP cfg) newfp s8
      in set_reg child (REG_SP cfg) newsp s9)"

text \<open>Lines 172 to 179: the heap accounting calls, present with \<^verbatim>\<open>CONFIG_DEBUG_MM_HEAPINFO\<close>.\<close>

definition vfork_heapinfo :: "build_config \<Rightarrow> u32 \<Rightarrow> kernel_state \<Rightarrow> kernel_state" where
  "vfork_heapinfo cfg child s =
     (if CONFIG_DEBUG_MM_HEAPINFO cfg
      then log_event (Ev_heapinfo_set_stack_node (stack_alloc_ptr (cmn (tcbs s child))) (pid (cmn (tcbs s child))))
             (log_event (Ev_heapinfo_exclude_stacksize (stack_alloc_ptr (cmn (tcbs s child)))) s)
      else s)"

text \<open>
  Modelled from the spec: \<^verbatim>\<open>DEBUGASSERT\<close> (\<^verbatim>\<open>assert.h\<close>, not in this file) is
  asserted only in debug builds; elsewhere it compiles to nothing. The value says whether
  the run goes on.
\<close>

definition DEBUGASSERT :: "build_config \<Rightarrow> bool \<Rightarrow> bool" where
  "DEBUGASSERT cfg f = (if CONFIG_DEBUG cfg then f else True)"

text \<open>
  \<^verbatim>\<open>pid_t up_vfork(const struct vfork_s *context)\<close>. A failed assertion ends the run
  with \<open>AssertFailed\<close>: the call does not return.
\<close>

definition up_vfork :: "build_config \<Rightarrow> externals \<Rightarrow> vfork_s \<Rightarrow> kernel_state \<Rightarrow> outcome \<times> kernel_state" where
  "up_vfork cfg ext context s0 =
     (let parent = this_task s0
      in case task_vforksetup ext (lr context AND NOT 1) s0 of
           (None, s1) \<Rightarrow> (Returned ERROR, s1)
         | (Some child, s1) \<Rightarrow>
             (let stacksize = adj_stack_size (cmn (tcbs s1 parent)) + STACK_ALIGNMENT cfg - 1
              in case up_create_stack ext child stacksize
                        (flags (cmn (tcbs s1 parent)) AND TCB_FLAG_TTYPE_MASK cfg) s1 of
                   (ret, s2) \<Rightarrow>
                     if ret \<noteq> OK
                     then (Returned ERROR, task_vforkabort child (- ret) s2)
                     else (let s3 = vfork_heapinfo cfg child s2
                           in if \<not> DEBUGASSERT cfg (adj_stack_ptr (cmn (tcbs s3 parent)) > sp context)
                              then (AssertFailed, s3)
                              else task_vforkstart ext child
                                     (vfork_syscalls cfg parent child
                                        (vfork_transfer cfg context parent child stacksize s3)))))"

subsection \<open>Vocabulary of the properties\<close>

text \<open>
  Setup handed out the child \<open>c\<close>, initialised as \<open>t0\<close>, and the child is not the
  calling task itself.
\<close>

definition child_set_up :: "externals \<Rightarrow> vfork_s \<Rightarrow> kernel_state \<Rightarrow> u32 \<Rightarrow> task_tcb_s \<Rightarrow> bool" where
  "child_set_up ext context s c t0 =
     (new_child ext (lr context AND NOT 1) = Some (c, t0) \<and> c \<noteq> this_task s)"

text \<open>The allocator's answer to the request that \<^verbatim>\<open>up_vfork\<close> makes in state \<open>s\<close>.\<close>

definition requested_stack :: "build_config \<Rightarrow> externals \<Rightarrow> kernel_state \<Rightarrow> stack_alloc" where
  "requested_stack cfg ext s =
     alloc_stack ext
       (adj_stack_size (cmn (tcbs s (this_task s))) + STACK_ALIGNMENT cfg - 1)
       (flags (cmn (tcbs s (this_task s))) AND TCB_FLAG_TTYPE_MASK cfg)"

text \<open>
  The call gets as far as the context transfer: setup and the stack allocation succeed and
  the assertion, where compiled in, holds.
\<close>

definition vfork_proceeds :: "build_config \<Rightarrow> externals \<Rightarrow> vfork_s \<Rightarrow> kernel_state \<Rightarrow> u32 \<Rightarrow> task_tcb_s \<Rightarrow> bool" where
  "vfork_proceeds cfg ext context s c t0 =
     (child_set_up ext context s c t0
      \<and> sa_ret (requested_stack cfg ext s) = OK
      \<and> DEBUGASSERT cfg (sp context < adj_stack_ptr (cmn (tcbs s (this_task s)))))"

text \<open>The child TCB once the allocator has reported the bounds \<open>r\<close> in it.\<close>

definition stack_allocated :: "stack_alloc \<Rightarrow> task_tcb_s \<Rightarrow> task_tcb_s" where
  "stack_allocated r t =
     cmn_update (\<lambda>c. c\<lparr>stack_alloc_ptr := sa_alloc_ptr r,
                         adj_stack_ptr := sa_adj_ptr r,
                         adj_stack_size := sa_adj_size r\<rparr>) t"

text \<open>The state in which the context transfer starts, when the call gets that far.\<close>

definition before_transfer :: "build_config \<Rightarrow> externals \<Rightarrow> vfork_s \<Rightarrow> kernel_state \<Rightarrow> u32 \<Rightarrow> task_tcb_s \<Rightarrow> kernel_state" where
  "before_transfer cfg ext context s c t0 =
     vfork_heapinfo cfg c
       (s\<lparr>trace := trace s @
            [Ev_task_vforksetup (lr context AND NOT 1),
             Ev_up_create_stack c
               (adj_stack_size (cmn (tcbs s (this_task s))) + STACK_ALIGNMENT cfg - 1)
               (flags (cmn (tcbs s (this_task s))) AND TCB_FLAG_TTYPE_MASK cfg)],
          tcbs := (tcbs s)(c := stack_allocated (requested_stack cfg ext s) t0)\<rparr>)"

text \<open>
  The allocated stack region of a TCB is \<open>[stack_alloc_ptr, stack_alloc_ptr + adj_stack_size)\<close>;
  its adjusted top lies inside it or at its end.
\<close>

definition in_stack_region :: "tcb_s \<Rightarrow> u32 \<Rightarrow> bool" where
  "in_stack_region t a =
     (unat (stack_alloc_ptr t) \<le> unat a
      \<and> unat a < unat (stack_alloc_ptr t) + unat (adj_stack_size t))"

definition stack_ok :: "tcb_s \<Rightarrow> bool" where
  "stack_ok t =
     (unat (stack_alloc_ptr t) \<le> unat (adj_stack_ptr t)
      \<and> unat (adj_stack_ptr t) \<le> unat (stack_alloc_ptr t) + unat (adj_stack_size t))"

text \<open>The captured stack pointer lies in the stack of \<open>t\<close>, below its adjusted top.\<close>

definition sp_in_stack :: "tcb_s \<Rightarrow> u32 \<Rightarrow> bool" where
  "sp_in_stack t p = (stack_alloc_ptr t \<le> p \<and> p < adj_stack_ptr t)"

text \<open>The stack of \<open>c\<close> has at least as much room below its top as the stack of \<open>p\<close>.\<close>

definition as_deep_as :: "tcb_s \<Rightarrow> tcb_s \<Rightarrow> bool" where
  "as_deep_as c p =
     (unat (adj_stack_ptr p) - unat (stack_alloc_ptr p)
        \<le> unat (adj_stack_ptr c) - unat (stack_alloc_ptr c))"

text \<open>The events that a run added to the trace.\<close>

definition new_events :: "kernel_state \<Rightarrow> kernel_state \<Rightarrow> event list" where
  "new_events s s' = drop (length (trace s)) (trace s')"

fun is_memcpy :: "event \<Rightarrow> bool" where
  "is_memcpy (Ev_memcpy dst src n) = True"
| "is_memcpy e = False"

fun is_create_stack :: "event \<Rightarrow> bool" where
  "is_create_stack (Ev_up_create_stack tcb stack_size ttype) = True"
| "is_create_stack e = False"

fun is_abort :: "event \<Rightarrow> bool" where
  "is_abort (Ev_task_vforkabort child errcode) = True"
| "is_abort e = False"

fun is_scheduled :: "event \<Rightarrow> bool" where
  "is_scheduled (Ev_scheduled child) = True"
| "is_scheduled e = False"

text \<open>The slots of the saved-register array that the transfer assigns.\<close>

definition transfer_slots :: "build_config \<Rightarrow> nat set" where
  "transfer_slots cfg =
     {REG_R4 cfg, REG_R5 cfg, REG_R6 cfg, REG_R7 cfg, REG_R8 cfg, REG_R9 cfg, REG_R10 cfg,
      REG_FP cfg, REG_SP cfg}"

text \<open>
  The spec's words for the requested size: a size rounded up to the alignment granularity
  is the least multiple of the granularity that is not below it.
\<close>

definition rounded_up :: "nat \<Rightarrow> nat \<Rightarrow> nat" where
  "rounded_up a n = ((n + a - 1) div a) * a"

text \<open>
  Modelled from the spec: the declaration of \<^verbatim>\<open>struct xcpt_syscall_s\<close> is not in this
  file. The set of fields of a record is fixed per target platform, and every field is
  copied: besides \<^verbatim>\<open>sysreturn\<close>, a record has \<^verbatim>\<open>cpsr\<close> or \<^verbatim>\<open>excreturn\<close> exactly
  on the platforms whose copy rule names it. Two records are identical field for field when
  they agree on the fields of the platform.
\<close>

definition has_cpsr :: "build_config \<Rightarrow> bool" where
  "has_cpsr cfg =
     (((CONFIG_ARCH cfg = CORTEXA5 \<or> CONFIG_ARCH cfg = CORTEXA8) \<and> CONFIG_BUILD_KERNEL cfg)
      \<or> ((CONFIG_ARCH cfg = CORTEXR4 \<or> CONFIG_ARCH cfg = CORTEXR4F) \<and> CONFIG_BUILD_PROTECTED cfg))"

definition has_excreturn :: "build_config \<Rightarrow> bool" where
  "has_excreturn cfg =
     (CONFIG_ARCH cfg = CORTEXM3 \<or> CONFIG_ARCH cfg = CORTEXM4
      \<or> CONFIG_ARCH cfg = CORTEXM0 \<or> CONFIG_ARCH cfg = CORTEXM7
      \<or> CONFIG_ARCH cfg = CORTEXM33 \<or> CONFIG_ARCH cfg = CORTEXM55)"

definition same_fields :: "build_config \<Rightarrow> xcpt_syscall_s \<Rightarrow> xcpt_syscall_s \<Rightarrow> bool" where
  "same_fields cfg a b =
     (sysreturn a = sysreturn b
      \<and> (if has_cpsr cfg then cpsr a = cpsr b else True)
      \<and> (if has_excreturn cfg then excreturn a = excreturn b else True))"

subsection \<open>A concrete system\<close>

text \<open>
  The scenario of the specification: a parent with the stack \<open>[0x1000, 0x2000)\<close> calls
  \<^verbatim>\<open>vfork()\<close> with \<open>sp = 0x1F00\<close> and \<open>fp = 0x1F80\<close>; the child receives the stack
  \<open>[0x3000, 0x4000)\<close>. The parent TCB is at \<open>0x100\<close>, the child TCB at \<open>0x200\<close>.
\<close>

definition ex_cfg :: build_config where
  "ex_cfg =
     \<lparr>CONFIG_ARCH = CORTEXM4, CONFIG_BUILD_KERNEL = False, CONFIG_BUILD_PROTECTED = True,
      CONFIG_LIB_SYSCALL = True, CONFIG_DEBUG = True, CONFIG_DEBUG_MM_HEAPINFO = False,
      STACK_ALIGNMENT = 8, TCB_FLAG_TTYPE_MASK = 3,
      REG_R0 = 10, REG_R4 = 2, REG_R5 = 3, REG_R6 = 4, REG_R7 = 5, REG_R8 = 6, REG_R9 = 7,
      REG_R10 = 8, REG_FP = 9, REG_SP = 0\<rparr>"

definition ex_xcp :: xcptcontext where
  "ex_xcp =
     \<lparr>regs = (\<lambda>i. 0), nsyscalls = 0,
      syscall = (\<lambda>i. \<lparr>sysreturn = 0, cpsr = 0, excreturn = 0\<rparr>)\<rparr>"

definition ex_parent :: task_tcb_s where
  "ex_parent =
     \<lparr>cmn = \<lparr>pid = 6, flags = 1, adj_stack_size = 0x1000, stack_alloc_ptr = 0x1000,
             adj_stack_ptr = 0x2000,
             xcp = ex_xcp\<lparr>nsyscalls := 2,
                          syscall := (\<lambda>i. \<lparr>sysreturn = 0x8000 + of_nat i, cpsr = 0x13,
                                            excreturn = 0xFFFFFFFD\<rparr>)\<rparr>\<rparr>\<rparr>"

definition ex_child :: task_tcb_s where
  "ex_child =
     \<lparr>cmn = \<lparr>pid = 7, flags = 1, adj_stack_size = 0, stack_alloc_ptr = 0, adj_stack_ptr = 0,
             xcp = ex_xcp\<rparr>\<rparr>"

definition ex_state :: kernel_state where
  "ex_state =
     \<lparr>running = 0x100,
      tcbs = (\<lambda>p. if p = 0x100 then ex_parent else \<lparr>cmn = \<lparr>pid = 0, flags = 0,
                adj_stack_size = 0, stack_alloc_ptr = 0, adj_stack_ptr = 0, xcp = ex_xcp\<rparr>\<rparr>),
      mem = (\<lambda>a. if a = 0x800 then 0xAA else 0),
      trace = []\<rparr>"

definition ex_ext :: externals where
  "ex_ext =
     \<lparr>new_child = (\<lambda>entry. Some (0x200, ex_child)),
      alloc_stack = (\<lambda>stack_size ttype.
         \<lparr>sa_ret = 0, sa_alloc_ptr = 0x3000, sa_adj_ptr = 0x4000, sa_adj_size = 0x1000\<rparr>),
      activate = (\<lambda>child. 0)\<rparr>"

definition ex_context :: vfork_s where
  "ex_context =
     \<lparr>r4 = 4, r5 = 5, r6 = 6, r7 = 7, r8 = 8, r9 = 9, r10 = 10,
      fp = 0x1F80, sp = 0x1F00, lr = 0x8001\<rparr>"

text \<open>
  The same call with a captured stack pointer below the parent's stack (\<open>0x800\<close>), and
  with one above the parent's adjusted top (\<open>0x2100\<close>).
\<close>

definition ex_context_low :: vfork_s where
  "ex_context_low = ex_context\<lparr>sp := 0x800\<rparr>"

definition ex_context_high :: vfork_s where
  "ex_context_high = ex_context\<lparr>sp := 0x2100\<rparr>"

text \<open>The same build without \<^verbatim>\<open>CONFIG_DEBUG\<close>.\<close>

definition ex_cfg_nodebug :: build_config where
  "ex_cfg_nodebug = ex_cfg\<lparr>CONFIG_DEBUG := False\<rparr>"

text \<open>An allocator that places the child's stack right above the parent's: \<open>[0x2000, 0x3000)\<close>.\<close>

definition ex_ext_adjacent :: externals where
  "ex_ext_adjacent =
     ex_ext\<lparr>alloc_stack := (\<lambda>stack_size ttype.
         \<lparr>sa_ret = 0, sa_alloc_ptr = 0x2000, sa_adj_ptr = 0x3000, sa_adj_size = 0x1000\<rparr>)\<rparr>"

text \<open>Collaborators that fail: no child TCB, no stack (\<open>-12\<close>), no activation (\<open>-11\<close>).\<close>

definition ex_ext_nosetup :: externals where
  "ex_ext_nosetup = ex_ext\<lparr>new_child := (\<lambda>entry. None)\<rparr>"

definition ex_ext_nostack :: externals where
  "ex_ext_nostack =
     ex_ext\<lparr>alloc_stack := (\<lambda>stack_size ttype.
         \<lparr>sa_ret = - 12, sa_alloc_ptr = 0, sa_adj_ptr = 0, sa_adj_size = 0\<rparr>)\<rparr>"

definition ex_ext_nostart :: externals where
  "ex_ext_nostart = ex_ext\<lparr>activate := (\<lambda>child. - 11)\<rparr>"

text \<open>The same call with another captured frame pointer.\<close>

definition ex_context_fp :: "u32 \<Rightarrow> vfork_s" where
  "ex_context_fp f = ex_context\<lparr>fp := f\<rparr>"

text \<open>The same system with a parent that has no pending system call.\<close>

definition ex_state_idle :: kernel_state where
  "ex_state_idle =
     ex_state\<lparr>tcbs := (tcbs ex_state)
       (0x100 := cmn_update (xcp_update (nsyscalls_update (\<lambda>n. 0))) ex_parent)\<rparr>"

section \<open>Properties\<close>

subsection \<open>The state operations\<close>

declare syscall_loop.simps [simp del]

lemma log_event_simps:
  "tcbs (log_event e s) = tcbs s" "mem (log_event e s) = mem s"
  "running (log_event e s) = running s" "trace (log_event e s) = trace s @ [e]"
  by (simp_all add: log_event_def)

lemma set_reg_simps:
  "mem (set_reg c i v s) = mem s" "trace (set_reg c i v s) = trace s"
  "running (set_reg c i v s) = running s"
  "q \<noteq> c \<Longrightarrow> tcbs (set_reg c i v s) q = tcbs s q"
  "tcbs (set_reg c i v s) c = cmn_update (xcp_update (regs_update (\<lambda>r. r(i := v)))) (tcbs s c)"
  by (simp_all add: set_reg_def)

lemma set_syscall_simps:
  "mem (set_syscall c i v s) = mem s" "trace (set_syscall c i v s) = trace s"
  "running (set_syscall c i v s) = running s"
  "q \<noteq> c \<Longrightarrow> tcbs (set_syscall c i v s) q = tcbs s q"
  "tcbs (set_syscall c i v s) c = cmn_update (xcp_update (syscall_update (\<lambda>r. r(i := v)))) (tcbs s c)"
  by (simp_all add: set_syscall_def)

lemma set_nsyscalls_simps:
  "mem (set_nsyscalls c n s) = mem s" "trace (set_nsyscalls c n s) = trace s"
  "running (set_nsyscalls c n s) = running s"
  "q \<noteq> c \<Longrightarrow> tcbs (set_nsyscalls c n s) q = tcbs s q"
  "tcbs (set_nsyscalls c n s) c = cmn_update (xcp_update (nsyscalls_update (\<lambda>_. n))) (tcbs s c)"
  by (simp_all add: set_nsyscalls_def)

text \<open>The loop touches nothing but the system-call records of the child.\<close>

lemma syscall_loop_frame:
  "mem (syscall_loop cfg p c i s) = mem s \<and> trace (syscall_loop cfg p c i s) = trace s
   \<and> running (syscall_loop cfg p c i s) = running s
   \<and> (\<forall>q. q \<noteq> c \<longrightarrow> tcbs (syscall_loop cfg p c i s) q = tcbs s q)"
proof (induction cfg p c i s rule: syscall_loop.induct)
  case (1 cfg parent child index s)
  show ?case
  proof (cases "index < nsyscalls (xcp (cmn (tcbs s parent)))")
    case True
    with 1 show ?thesis
      by (subst (1 2 3 4) syscall_loop.simps) (simp add: set_syscall_simps)
  next
    case False
    then show ?thesis by (simp add: syscall_loop.simps)
  qed
qed

lemma syscall_loop_child:
  "\<exists>f. tcbs (syscall_loop cfg p c i s) c = cmn_update (xcp_update (syscall_update f)) (tcbs s c)"
proof (induction cfg p c i s rule: syscall_loop.induct)
  case (1 cfg parent child index s)
  show ?case
  proof (cases "index < nsyscalls (xcp (cmn (tcbs s parent)))")
    case True
    let ?v = "copy_syscall cfg (syscall (xcp (cmn (tcbs s parent))) index) (syscall (xcp (cmn (tcbs s child))) index)"
    let ?s1 = "set_syscall child index ?v s"
    from 1[OF True] obtain f where
      f: "tcbs (syscall_loop cfg parent child (index + 1) ?s1) child = cmn_update (xcp_update (syscall_update f)) (tcbs ?s1 child)"
      by blast
    have eq: "syscall_loop cfg parent child index s = syscall_loop cfg parent child (index + 1) ?s1"
      using True by (subst syscall_loop.simps) simp
    have "tcbs (syscall_loop cfg parent child index s) child =
            cmn_update (xcp_update (syscall_update (\<lambda>r. f (r(index := ?v))))) (tcbs s child)"
      unfolding eq f by (simp add: set_syscall_simps comp_def)
    then show ?thesis by blast
  next
    case False
    then show ?thesis
      by (intro exI[where x = "\<lambda>r. r"]) (simp add: syscall_loop.simps)
  qed
qed

lemma syscall_loop_entries:
  "p \<noteq> c \<Longrightarrow> syscall (xcp (cmn (tcbs (syscall_loop cfg p c i s) c))) j =
          (if i \<le> j \<and> j < nsyscalls (xcp (cmn (tcbs s p)))
           then copy_syscall cfg (syscall (xcp (cmn (tcbs s p))) j) (syscall (xcp (cmn (tcbs s c))) j)
           else syscall (xcp (cmn (tcbs s c))) j)"
proof (induction cfg p c i s rule: syscall_loop.induct)
  case (1 cfg parent child index s)
  show ?case
  proof (cases "index < nsyscalls (xcp (cmn (tcbs s parent)))")
    case True
    let ?v = "copy_syscall cfg (syscall (xcp (cmn (tcbs s parent))) index) (syscall (xcp (cmn (tcbs s child))) index)"
    let ?s1 = "set_syscall child index ?v s"
    have eq: "syscall_loop cfg parent child index s = syscall_loop cfg parent child (index + 1) ?s1"
      using True by (subst syscall_loop.simps) simp
    have p: "tcbs ?s1 parent = tcbs s parent" using 1(2) by (simp add: set_syscall_simps)
    show ?thesis
      unfolding eq using 1(1)[OF True 1(2)] True
      by (auto simp: p set_syscall_simps)
  next
    case False
    then show ?thesis by (auto simp: syscall_loop.simps)
  qed
qed

lemma memcpy_simps:
  "tcbs (memcpy dst src n s) = tcbs s" "running (memcpy dst src n s) = running s"
  "trace (memcpy dst src n s) = trace s @ [Ev_memcpy dst src n]"
  "mem (memcpy dst src n s) a = (if a - dst < n then mem s (src + (a - dst)) else mem s a)"
  by (simp_all add: memcpy_def log_event_simps)

lemma vfork_syscalls_frame:
  "mem (vfork_syscalls cfg p c s) = mem s \<and> trace (vfork_syscalls cfg p c s) = trace s
   \<and> running (vfork_syscalls cfg p c s) = running s
   \<and> (\<forall>q. q \<noteq> c \<longrightarrow> tcbs (vfork_syscalls cfg p c s) q = tcbs s q)"
  by (simp add: vfork_syscalls_def Let_def set_nsyscalls_simps syscall_loop_frame)

lemma vfork_syscalls_child:
  "\<exists>f g. tcbs (vfork_syscalls cfg p c s) c =
     cmn_update (xcp_update (\<lambda>x. nsyscalls_update g (syscall_update f x))) (tcbs s c)"
proof -
  obtain f where f: "tcbs (syscall_loop cfg p c 0 s) c = cmn_update (xcp_update (syscall_update f)) (tcbs s c)"
    using syscall_loop_child by blast
  have id: "tcbs s c = cmn_update (xcp_update (\<lambda>x. nsyscalls_update (\<lambda>n. n) (syscall_update (\<lambda>r. r) x))) (tcbs s c)"
    by simp
  show ?thesis
  proof (cases "CONFIG_LIB_SYSCALL cfg \<and> nsyscalls (xcp (cmn (tcbs s p))) > 0")
    case True
    then have "tcbs (vfork_syscalls cfg p c s) c =
      cmn_update (xcp_update (\<lambda>x. nsyscalls_update (\<lambda>_. nsyscalls (xcp (cmn (tcbs (syscall_loop cfg p c 0 s) p)))) (syscall_update f x))) (tcbs s c)"
      by (simp add: vfork_syscalls_def Let_def set_nsyscalls_simps f comp_def)
    then show ?thesis by blast
  next
    case False
    then have "vfork_syscalls cfg p c s = s" by (auto simp: vfork_syscalls_def)
    with id show ?thesis by metis
  qed
qed

lemma vfork_syscalls_copied:
  assumes "p \<noteq> c" "CONFIG_LIB_SYSCALL cfg" "nsyscalls (xcp (cmn (tcbs s p))) > 0"
  shows "nsyscalls (xcp (cmn (tcbs (vfork_syscalls cfg p c s) c))) = nsyscalls (xcp (cmn (tcbs s p)))"
    and "syscall (xcp (cmn (tcbs (vfork_syscalls cfg p c s) c))) j =
          (if j < nsyscalls (xcp (cmn (tcbs s p)))
           then copy_syscall cfg (syscall (xcp (cmn (tcbs s p))) j) (syscall (xcp (cmn (tcbs s c))) j)
           else syscall (xcp (cmn (tcbs s c))) j)"
  using assms
  by (simp_all add: vfork_syscalls_def Let_def set_nsyscalls_simps syscall_loop_frame syscall_loop_entries)

lemma vfork_syscalls_noop:
  "\<not> CONFIG_LIB_SYSCALL cfg \<or> nsyscalls (xcp (cmn (tcbs s p))) = 0 \<Longrightarrow> vfork_syscalls cfg p c s = s"
  by (auto simp: vfork_syscalls_def)

lemma vfork_transfer_frame:
  "running (vfork_transfer cfg context p c sz s) = running s"
  "q \<noteq> c \<Longrightarrow> tcbs (vfork_transfer cfg context p c sz s) q = tcbs s q"
  "trace (vfork_transfer cfg context p c sz s) =
     trace s @ [Ev_memcpy (adj_stack_ptr (cmn (tcbs s c)) - (adj_stack_ptr (cmn (tcbs s p)) - sp context))
                 (sp context) (adj_stack_ptr (cmn (tcbs s p)) - sp context)]"
  "mem (vfork_transfer cfg context p c sz s) a =
     (if a - (adj_stack_ptr (cmn (tcbs s c)) - (adj_stack_ptr (cmn (tcbs s p)) - sp context))
           < adj_stack_ptr (cmn (tcbs s p)) - sp context
      then mem s (sp context + (a - (adj_stack_ptr (cmn (tcbs s c)) - (adj_stack_ptr (cmn (tcbs s p)) - sp context))))
      else mem s a)"
  by (simp_all add: vfork_transfer_def Let_def set_reg_simps memcpy_simps)

lemma vfork_transfer_child:
  "tcbs (vfork_transfer cfg context p c sz s) c =
     cmn_update (xcp_update (regs_update (\<lambda>r. r
        (REG_R4 cfg := r4 context, REG_R5 cfg := r5 context, REG_R6 cfg := r6 context,
         REG_R7 cfg := r7 context, REG_R8 cfg := r8 context, REG_R9 cfg := r9 context,
         REG_R10 cfg := r10 context,
         REG_FP cfg :=
           (if fp context \<le> adj_stack_ptr (cmn (tcbs s p))
               \<and> adj_stack_ptr (cmn (tcbs s p)) - sz \<le> fp context
            then adj_stack_ptr (cmn (tcbs s c)) - (adj_stack_ptr (cmn (tcbs s p)) - fp context)
            else fp context),
         REG_SP cfg := adj_stack_ptr (cmn (tcbs s c)) - (adj_stack_ptr (cmn (tcbs s p)) - sp context)))))
       (tcbs s c)"
  by (simp add: vfork_transfer_def Let_def set_reg_simps memcpy_simps comp_def)

subsection \<open>The run of a call that gets to the transfer\<close>

lemma vfork_heapinfo_simps:
  "tcbs (vfork_heapinfo cfg c s) = tcbs s" "mem (vfork_heapinfo cfg c s) = mem s"
  "running (vfork_heapinfo cfg c s) = running s"
  "filter is_memcpy (trace (vfork_heapinfo cfg c s)) = filter is_memcpy (trace s)"
  "filter is_create_stack (trace (vfork_heapinfo cfg c s)) = filter is_create_stack (trace s)"
  "filter is_abort (trace (vfork_heapinfo cfg c s)) = filter is_abort (trace s)"
  "filter is_scheduled (trace (vfork_heapinfo cfg c s)) = filter is_scheduled (trace s)"
  "\<exists>es. trace (vfork_heapinfo cfg c s) = trace s @ es"
  by (simp_all add: vfork_heapinfo_def log_event_simps)

lemma before_transfer_simps:
  "mem (before_transfer cfg ext context s c t0) = mem s"
  "running (before_transfer cfg ext context s c t0) = running s"
  "q \<noteq> c \<Longrightarrow> tcbs (before_transfer cfg ext context s c t0) q = tcbs s q"
  "tcbs (before_transfer cfg ext context s c t0) c = stack_allocated (requested_stack cfg ext s) t0"
  by (simp_all add: before_transfer_def vfork_heapinfo_simps)

lemma up_vfork_run:
  assumes "vfork_proceeds cfg ext context s c t0"
  shows "up_vfork cfg ext context s =
           task_vforkstart ext c
             (vfork_syscalls cfg (this_task s) c
                (vfork_transfer cfg context (this_task s) c
                   (adj_stack_size (cmn (tcbs s (this_task s))) + STACK_ALIGNMENT cfg - 1)
                   (before_transfer cfg ext context s c t0)))"
proof -
  from assms have nc: "new_child ext (lr context AND NOT 1) = Some (c, t0)" and ne: "c \<noteq> running s"
    and ok: "sa_ret (requested_stack cfg ext s) = OK"
    and da: "DEBUGASSERT cfg (sp context < adj_stack_ptr (cmn (tcbs s (running s))))"
    by (simp_all add: vfork_proceeds_def child_set_up_def this_task_def)
  from ne have ne': "running s \<noteq> c" by simp
  show ?thesis
    using ok da nc
    by (simp add: up_vfork_def task_vforksetup_def up_create_stack_def Let_def this_task_def
        log_event_simps ne' requested_stack_def before_transfer_def stack_allocated_def
        log_event_def vfork_heapinfo_simps)
qed

lemma task_vforkstart_simps:
  "tcbs (snd (task_vforkstart ext c s)) = tcbs s" "mem (snd (task_vforkstart ext c s)) = mem s"
  "running (snd (task_vforkstart ext c s)) = running s"
  "trace (snd (task_vforkstart ext c s)) =
     trace s @ [Ev_task_vforkstart c,
                if activate ext c < OK then Ev_task_vforkabort c (- activate ext c) else Ev_scheduled c]"
  "fst (task_vforkstart ext c s) =
     (if activate ext c < OK then Returned ERROR else Returned (pid (cmn (tcbs s c))))"
  by (simp_all add: task_vforkstart_def Let_def task_vforkabort_def log_event_simps)

lemma final_other:
  assumes "vfork_proceeds cfg ext context s c t0" "up_vfork cfg ext context s = (out, s')" "q \<noteq> c"
  shows "tcbs s' q = tcbs s q"
proof -
  have "s' = snd (up_vfork cfg ext context s)" using assms(2) by simp
  then show ?thesis
    using assms(3)
    by (simp add: up_vfork_run[OF assms(1)] task_vforkstart_simps vfork_syscalls_frame
        vfork_transfer_frame before_transfer_simps)
qed

lemma final_parent:
  assumes "vfork_proceeds cfg ext context s c t0" "up_vfork cfg ext context s = (out, s')"
  shows "tcbs s' (this_task s) = tcbs s (this_task s)"
  using assms final_other[OF assms, of "this_task s"]
  by (auto simp: vfork_proceeds_def child_set_up_def)

lemma final_child:
  assumes "vfork_proceeds cfg ext context s c t0" "up_vfork cfg ext context s = (out, s')"
  shows "\<exists>f g. tcbs s' c =
     cmn_update (xcp_update (\<lambda>x. nsyscalls_update g (syscall_update f (regs_update (\<lambda>r. r
        (REG_R4 cfg := r4 context, REG_R5 cfg := r5 context, REG_R6 cfg := r6 context,
         REG_R7 cfg := r7 context, REG_R8 cfg := r8 context, REG_R9 cfg := r9 context,
         REG_R10 cfg := r10 context,
         REG_FP cfg :=
           (if fp context \<le> adj_stack_ptr (cmn (tcbs s (this_task s)))
               \<and> adj_stack_ptr (cmn (tcbs s (this_task s)))
                   - (adj_stack_size (cmn (tcbs s (this_task s))) + STACK_ALIGNMENT cfg - 1) \<le> fp context
            then sa_adj_ptr (requested_stack cfg ext s) - (adj_stack_ptr (cmn (tcbs s (this_task s))) - fp context)
            else fp context),
         REG_SP cfg := sa_adj_ptr (requested_stack cfg ext s)
                        - (adj_stack_ptr (cmn (tcbs s (this_task s))) - sp context))) x))))
       (stack_allocated (requested_stack cfg ext s) t0)"
proof -
  have ne: "this_task s \<noteq> c" using assms(1) by (auto simp: vfork_proceeds_def child_set_up_def)
  let ?s0 = "before_transfer cfg ext context s c t0"
  let ?s1 = "vfork_transfer cfg context (this_task s) c
                   (adj_stack_size (cmn (tcbs s (this_task s))) + STACK_ALIGNMENT cfg - 1) ?s0"
  obtain f g where fg: "tcbs (vfork_syscalls cfg (this_task s) c ?s1) c =
     cmn_update (xcp_update (\<lambda>x. nsyscalls_update g (syscall_update f x))) (tcbs ?s1 c)"
    using vfork_syscalls_child by blast
  have "s' = snd (up_vfork cfg ext context s)" using assms(2) by simp
  then have "tcbs s' c = tcbs (vfork_syscalls cfg (this_task s) c ?s1) c"
    by (simp add: up_vfork_run[OF assms(1)] task_vforkstart_simps)
  also have "\<dots> = cmn_update (xcp_update (\<lambda>x. nsyscalls_update g (syscall_update f x))) (tcbs ?s1 c)"
    by (rule fg)
  finally show ?thesis
    using ne
    apply (intro exI[where x = f] exI[where x = g])
    apply (simp add: vfork_transfer_child before_transfer_simps stack_allocated_def comp_def)
    done
qed

lemma final_stack:
  assumes "vfork_proceeds cfg ext context s c t0" "up_vfork cfg ext context s = (out, s')"
  shows "adj_stack_ptr (cmn (tcbs s' c)) = sa_adj_ptr (requested_stack cfg ext s)"
    and "stack_alloc_ptr (cmn (tcbs s' c)) = sa_alloc_ptr (requested_stack cfg ext s)"
    and "adj_stack_size (cmn (tcbs s' c)) = sa_adj_size (requested_stack cfg ext s)"
    and "pid (cmn (tcbs s' c)) = pid (cmn t0)"
  using final_child[OF assms] by (auto simp: stack_allocated_def)

lemma final_regs:
  assumes "vfork_proceeds cfg ext context s c t0" "up_vfork cfg ext context s = (out, s')"
  shows "regs (xcp (cmn (tcbs s' c))) = (regs (xcp (cmn t0)))
        (REG_R4 cfg := r4 context, REG_R5 cfg := r5 context, REG_R6 cfg := r6 context,
         REG_R7 cfg := r7 context, REG_R8 cfg := r8 context, REG_R9 cfg := r9 context,
         REG_R10 cfg := r10 context,
         REG_FP cfg :=
           (if fp context \<le> adj_stack_ptr (cmn (tcbs s (this_task s)))
               \<and> adj_stack_ptr (cmn (tcbs s (this_task s)))
                   - (adj_stack_size (cmn (tcbs s (this_task s))) + STACK_ALIGNMENT cfg - 1) \<le> fp context
            then sa_adj_ptr (requested_stack cfg ext s) - (adj_stack_ptr (cmn (tcbs s (this_task s))) - fp context)
            else fp context),
         REG_SP cfg := sa_adj_ptr (requested_stack cfg ext s)
                        - (adj_stack_ptr (cmn (tcbs s (this_task s))) - sp context))"
  using final_child[OF assms] by (auto simp: stack_allocated_def)

lemma final_mem:
  assumes "vfork_proceeds cfg ext context s c t0" "up_vfork cfg ext context s = (out, s')"
  shows "mem s' a =
     (if a - (sa_adj_ptr (requested_stack cfg ext s) - (adj_stack_ptr (cmn (tcbs s (this_task s))) - sp context))
           < adj_stack_ptr (cmn (tcbs s (this_task s))) - sp context
      then mem s (sp context + (a - (sa_adj_ptr (requested_stack cfg ext s)
                                        - (adj_stack_ptr (cmn (tcbs s (this_task s))) - sp context))))
      else mem s a)"
proof -
  have ne: "this_task s \<noteq> c" using assms(1) by (auto simp: vfork_proceeds_def child_set_up_def)
  have "s' = snd (up_vfork cfg ext context s)" using assms(2) by simp
  then show ?thesis
    using ne
    by (simp add: up_vfork_run[OF assms(1)] task_vforkstart_simps vfork_syscalls_frame
        vfork_transfer_frame before_transfer_simps stack_allocated_def)
qed

lemma final_trace:
  assumes "vfork_proceeds cfg ext context s c t0" "up_vfork cfg ext context s = (out, s')"
  shows "trace s' = trace (before_transfer cfg ext context s c t0) @
     [Ev_memcpy (sa_adj_ptr (requested_stack cfg ext s) - (adj_stack_ptr (cmn (tcbs s (this_task s))) - sp context))
                (sp context) (adj_stack_ptr (cmn (tcbs s (this_task s))) - sp context),
      Ev_task_vforkstart c,
      if activate ext c < OK then Ev_task_vforkabort c (- activate ext c) else Ev_scheduled c]"
proof -
  have ne: "this_task s \<noteq> c" using assms(1) by (auto simp: vfork_proceeds_def child_set_up_def)
  have "s' = snd (up_vfork cfg ext context s)" using assms(2) by simp
  then show ?thesis
    using ne
    by (simp add: up_vfork_run[OF assms(1)] task_vforkstart_simps vfork_syscalls_frame
        vfork_transfer_frame before_transfer_simps stack_allocated_def)
qed

lemma before_transfer_trace:
  "\<exists>es. trace (before_transfer cfg ext context s c t0) = trace s @
       [Ev_task_vforksetup (lr context AND NOT 1),
        Ev_up_create_stack c
          (adj_stack_size (cmn (tcbs s (this_task s))) + STACK_ALIGNMENT cfg - 1)
          (flags (cmn (tcbs s (this_task s))) AND TCB_FLAG_TTYPE_MASK cfg)] @ es
     \<and> filter is_memcpy es = [] \<and> filter is_create_stack es = []
     \<and> filter is_abort es = [] \<and> filter is_scheduled es = []"
  by (simp add: before_transfer_def vfork_heapinfo_def log_event_simps)

lemma final_out:
  assumes "vfork_proceeds cfg ext context s c t0" "up_vfork cfg ext context s = (out, s')"
  shows "out = (if activate ext c < OK then Returned ERROR else Returned (pid (cmn t0)))"
proof -
  have ne: "this_task s \<noteq> c" using assms(1) by (auto simp: vfork_proceeds_def child_set_up_def)
  obtain f g where fg: "tcbs (vfork_syscalls cfg (this_task s) c (vfork_transfer cfg context (this_task s) c
                   (adj_stack_size (cmn (tcbs s (this_task s))) + STACK_ALIGNMENT cfg - 1) (before_transfer cfg ext context s c t0))) c =
     cmn_update (xcp_update (\<lambda>x. nsyscalls_update g (syscall_update f x))) (tcbs (vfork_transfer cfg context (this_task s) c
                   (adj_stack_size (cmn (tcbs s (this_task s))) + STACK_ALIGNMENT cfg - 1) (before_transfer cfg ext context s c t0)) c)"
    using vfork_syscalls_child by blast
  have "out = fst (up_vfork cfg ext context s)" using assms(2) by simp
  then show ?thesis
    by (simp add: up_vfork_run[OF assms(1)] task_vforkstart_simps log_event_simps fg
        vfork_transfer_child before_transfer_simps stack_allocated_def)
qed

lemma final_syscalls:
  assumes "vfork_proceeds cfg ext context s c t0" "up_vfork cfg ext context s = (out, s')"
    and "CONFIG_LIB_SYSCALL cfg" "nsyscalls (xcp (cmn (tcbs s (this_task s)))) > 0"
  shows "nsyscalls (xcp (cmn (tcbs s' c))) = nsyscalls (xcp (cmn (tcbs s (this_task s))))"
    and "syscall (xcp (cmn (tcbs s' c))) j =
          (if j < nsyscalls (xcp (cmn (tcbs s (this_task s))))
           then copy_syscall cfg (syscall (xcp (cmn (tcbs s (this_task s)))) j) (syscall (xcp (cmn t0)) j)
           else syscall (xcp (cmn t0)) j)"
proof -
  have ne: "this_task s \<noteq> c" using assms(1) by (auto simp: vfork_proceeds_def child_set_up_def)
  let ?s1 = "vfork_transfer cfg context (this_task s) c
                   (adj_stack_size (cmn (tcbs s (this_task s))) + STACK_ALIGNMENT cfg - 1) (before_transfer cfg ext context s c t0)"
  have p1: "tcbs ?s1 (this_task s) = tcbs s (this_task s)"
    using ne by (simp add: vfork_transfer_frame before_transfer_simps)
  have c1: "syscall (xcp (cmn (tcbs ?s1 c))) = syscall (xcp (cmn t0))"
    by (simp add: vfork_transfer_child before_transfer_simps stack_allocated_def)
  have s': "tcbs s' c = tcbs (vfork_syscalls cfg (this_task s) c ?s1) c"
    using assms(2) up_vfork_run[OF assms(1)] by (metis snd_conv task_vforkstart_simps(1))
  show "nsyscalls (xcp (cmn (tcbs s' c))) = nsyscalls (xcp (cmn (tcbs s (this_task s))))"
    unfolding s' using vfork_syscalls_copied(1)[OF ne assms(3), of ?s1] assms(4) by (simp add: p1)
  show "syscall (xcp (cmn (tcbs s' c))) j =
          (if j < nsyscalls (xcp (cmn (tcbs s (this_task s))))
           then copy_syscall cfg (syscall (xcp (cmn (tcbs s (this_task s)))) j) (syscall (xcp (cmn t0)) j)
           else syscall (xcp (cmn t0)) j)"
    unfolding s' using vfork_syscalls_copied(2)[OF ne assms(3), of ?s1 j] assms(4) by (simp add: p1 c1)
qed

lemma final_syscalls_noop:
  assumes "vfork_proceeds cfg ext context s c t0" "up_vfork cfg ext context s = (out, s')"
    and "\<not> CONFIG_LIB_SYSCALL cfg \<or> nsyscalls (xcp (cmn (tcbs s (this_task s)))) = 0"
  shows "nsyscalls (xcp (cmn (tcbs s' c))) = nsyscalls (xcp (cmn t0))"
    and "syscall (xcp (cmn (tcbs s' c))) = syscall (xcp (cmn t0))"
proof -
  have ne: "this_task s \<noteq> c" using assms(1) by (auto simp: vfork_proceeds_def child_set_up_def)
  let ?s1 = "vfork_transfer cfg context (this_task s) c
                   (adj_stack_size (cmn (tcbs s (this_task s))) + STACK_ALIGNMENT cfg - 1) (before_transfer cfg ext context s c t0)"
  have p1: "tcbs ?s1 (this_task s) = tcbs s (this_task s)"
    using ne by (simp add: vfork_transfer_frame before_transfer_simps)
  have noop: "vfork_syscalls cfg (this_task s) c ?s1 = ?s1"
    by (rule vfork_syscalls_noop) (use assms(3) in \<open>simp add: p1\<close>)
  have s': "tcbs s' c = tcbs ?s1 c"
    using assms(2) up_vfork_run[OF assms(1)] noop by (metis snd_conv task_vforkstart_simps(1))
  show "nsyscalls (xcp (cmn (tcbs s' c))) = nsyscalls (xcp (cmn t0))"
    unfolding s' by (simp add: vfork_transfer_child before_transfer_simps stack_allocated_def)
  show "syscall (xcp (cmn (tcbs s' c))) = syscall (xcp (cmn t0))"
    unfolding s' by (simp add: vfork_transfer_child before_transfer_simps stack_allocated_def)
qed

lemma up_vfork_setup_fails:
  assumes "new_child ext (lr context AND NOT 1) = None"
  shows "up_vfork cfg ext context s = (Returned ERROR, log_event (Ev_task_vforksetup (lr context AND NOT 1)) s)"
  using assms by (simp add: up_vfork_def task_vforksetup_def)

lemma up_vfork_alloc_fails:
  assumes "child_set_up ext context s c t0" "sa_ret (requested_stack cfg ext s) \<noteq> OK"
  shows "up_vfork cfg ext context s =
           (Returned ERROR,
            s\<lparr>trace := trace s @
                 [Ev_task_vforksetup (lr context AND NOT 1),
                  Ev_up_create_stack c
                    (adj_stack_size (cmn (tcbs s (this_task s))) + STACK_ALIGNMENT cfg - 1)
                    (flags (cmn (tcbs s (this_task s))) AND TCB_FLAG_TTYPE_MASK cfg),
                  Ev_task_vforkabort c (- sa_ret (requested_stack cfg ext s))],
               tcbs := (tcbs s)(c := t0)\<rparr>)"
proof -
  from assms(1) have nc: "new_child ext (lr context AND NOT 1) = Some (c, t0)" and ne: "running s \<noteq> c"
    by (auto simp: child_set_up_def this_task_def)
  show ?thesis
    using assms(2) nc ne
    by (simp add: up_vfork_def task_vforksetup_def up_create_stack_def Let_def this_task_def
        requested_stack_def log_event_def task_vforkabort_def)
qed

lemma up_vfork_assert_fails:
  assumes "child_set_up ext context s c t0" "sa_ret (requested_stack cfg ext s) = OK"
    and "\<not> DEBUGASSERT cfg (sp context < adj_stack_ptr (cmn (tcbs s (this_task s))))"
  shows "up_vfork cfg ext context s = (AssertFailed, before_transfer cfg ext context s c t0)"
proof -
  from assms(1) have nc: "new_child ext (lr context AND NOT 1) = Some (c, t0)" and ne: "running s \<noteq> c"
    by (auto simp: child_set_up_def this_task_def)
  show ?thesis
    using assms(2,3) nc ne
    by (simp add: up_vfork_def task_vforksetup_def up_create_stack_def Let_def this_task_def
        log_event_simps requested_stack_def before_transfer_def stack_allocated_def
        log_event_def vfork_heapinfo_simps)
qed

lemma new_events_append: "trace s' = trace s @ es \<Longrightarrow> new_events s s' = es"
  by (simp add: new_events_def)

lemma final_new_events:
  assumes "vfork_proceeds cfg ext context s c t0" "up_vfork cfg ext context s = (out, s')"
  shows "\<exists>es. new_events s s' =
       [Ev_task_vforksetup (lr context AND NOT 1),
        Ev_up_create_stack c
          (adj_stack_size (cmn (tcbs s (this_task s))) + STACK_ALIGNMENT cfg - 1)
          (flags (cmn (tcbs s (this_task s))) AND TCB_FLAG_TTYPE_MASK cfg)] @ es @
       [Ev_memcpy (sa_adj_ptr (requested_stack cfg ext s) - (adj_stack_ptr (cmn (tcbs s (this_task s))) - sp context))
                (sp context) (adj_stack_ptr (cmn (tcbs s (this_task s))) - sp context),
        Ev_task_vforkstart c,
        if activate ext c < OK then Ev_task_vforkabort c (- activate ext c) else Ev_scheduled c]
     \<and> filter is_memcpy es = [] \<and> filter is_create_stack es = []
     \<and> filter is_abort es = [] \<and> filter is_scheduled es = []"
proof -
  obtain es where es: "trace (before_transfer cfg ext context s c t0) = trace s @
       [Ev_task_vforksetup (lr context AND NOT 1),
        Ev_up_create_stack c
          (adj_stack_size (cmn (tcbs s (this_task s))) + STACK_ALIGNMENT cfg - 1)
          (flags (cmn (tcbs s (this_task s))) AND TCB_FLAG_TTYPE_MASK cfg)] @ es"
     and f: "filter is_memcpy es = []" "filter is_create_stack es = []"
       "filter is_abort es = []" "filter is_scheduled es = []"
    using before_transfer_trace by blast
  have "new_events s s' = [Ev_task_vforksetup (lr context AND NOT 1),
        Ev_up_create_stack c
          (adj_stack_size (cmn (tcbs s (this_task s))) + STACK_ALIGNMENT cfg - 1)
          (flags (cmn (tcbs s (this_task s))) AND TCB_FLAG_TTYPE_MASK cfg)] @ es @
       [Ev_memcpy (sa_adj_ptr (requested_stack cfg ext s) - (adj_stack_ptr (cmn (tcbs s (this_task s))) - sp context))
                (sp context) (adj_stack_ptr (cmn (tcbs s (this_task s))) - sp context),
        Ev_task_vforkstart c,
        if activate ext c < OK then Ev_task_vforkabort c (- activate ext c) else Ev_scheduled c]"
    by (rule new_events_append) (simp add: final_trace[OF assms] es)
  with f show ?thesis by blast
qed

lemma child_set_up_cases:
  assumes "child_set_up ext context s c t0" "up_vfork cfg ext context s = (out, s')"
  shows "\<exists>es. new_events s s' =
       [Ev_task_vforksetup (lr context AND NOT 1),
        Ev_up_create_stack c
          (adj_stack_size (cmn (tcbs s (this_task s))) + STACK_ALIGNMENT cfg - 1)
          (flags (cmn (tcbs s (this_task s))) AND TCB_FLAG_TTYPE_MASK cfg)] @ es
       \<and> filter is_create_stack es = []"
proof (cases "sa_ret (requested_stack cfg ext s) = OK")
  case False
  have "new_events s s' = [Ev_task_vforksetup (lr context AND NOT 1),
        Ev_up_create_stack c
          (adj_stack_size (cmn (tcbs s (this_task s))) + STACK_ALIGNMENT cfg - 1)
          (flags (cmn (tcbs s (this_task s))) AND TCB_FLAG_TTYPE_MASK cfg)]
        @ [Ev_task_vforkabort c (- sa_ret (requested_stack cfg ext s))]"
    using assms(2) unfolding up_vfork_alloc_fails[OF assms(1) False]
    by (intro new_events_append) auto
  then show ?thesis by auto
next
  case True
  show ?thesis
  proof (cases "DEBUGASSERT cfg (sp context < adj_stack_ptr (cmn (tcbs s (this_task s))))")
    case False
    have s': "s' = before_transfer cfg ext context s c t0"
      using assms(2) unfolding up_vfork_assert_fails[OF assms(1) True False] by simp
    obtain es where "trace (before_transfer cfg ext context s c t0) = trace s @
       [Ev_task_vforksetup (lr context AND NOT 1),
        Ev_up_create_stack c
          (adj_stack_size (cmn (tcbs s (this_task s))) + STACK_ALIGNMENT cfg - 1)
          (flags (cmn (tcbs s (this_task s))) AND TCB_FLAG_TTYPE_MASK cfg)] @ es"
      and "filter is_create_stack es = []"
      using before_transfer_trace by blast
    then show ?thesis
      unfolding s' by (auto dest: new_events_append)
  next
    case d: True
    have p: "vfork_proceeds cfg ext context s c t0"
      using assms(1) True d by (simp add: vfork_proceeds_def)
    from final_new_events[OF p assms(2)] show ?thesis by auto
  qed
qed

subsection \<open>The concrete system\<close>

lemmas ex_defs = ex_cfg_def ex_xcp_def ex_parent_def ex_child_def ex_state_def ex_ext_def ex_context_def

lemmas run_defs = up_vfork_def task_vforksetup_def up_create_stack_def task_vforkabort_def
  task_vforkstart_def memcpy_def set_reg_def set_syscall_def set_nsyscalls_def vfork_syscalls_def
  vfork_transfer_def vfork_heapinfo_def DEBUGASSERT_def log_event_def this_task_def OK_def
  ERROR_def copy_syscall_def syscall_loop.simps Let_def

lemma ex_proceeds: "vfork_proceeds ex_cfg ex_ext ex_context ex_state 0x200 ex_child"
  by (simp add: vfork_proceeds_def child_set_up_def requested_stack_def DEBUGASSERT_def
      this_task_def OK_def ex_defs)

lemma up_vfork_pair: "up_vfork cfg ext context s = (fst (up_vfork cfg ext context s), snd (up_vfork cfg ext context s))"
  by simp

subsection \<open>Arithmetic of the stack pointers\<close>

lemma child_sp_bounds:
  fixes pT pA cT cA cS p :: u32
  assumes "pA \<le> p" "p < pT"
    and "unat cA \<le> unat cT" "unat cT \<le> unat cA + unat cS"
    and "unat pT - unat pA \<le> unat cT - unat cA"
  shows "unat (pT - p) = unat pT - unat p"
    and "unat (cT - (pT - p)) = unat cT - (unat pT - unat p)"
    and "unat cA \<le> unat (cT - (pT - p))"
    and "unat (cT - (pT - p)) < unat cT"
proof -
  have a: "unat pA \<le> unat p" "unat p < unat pT"
    using assms(1,2) by (simp_all add: word_le_nat_alt word_less_nat_alt)
  show n: "unat (pT - p) = unat pT - unat p"
    using assms(2) by (simp add: unat_sub)
  have "unat (pT - p) \<le> unat cT" using n a assms(3,5) by linarith
  then have le: "pT - p \<le> cT" by (simp add: word_le_nat_alt)
  show m: "unat (cT - (pT - p)) = unat cT - (unat pT - unat p)"
    using unat_sub[OF le] n by simp
  show "unat cA \<le> unat (cT - (pT - p))" using m a assms(3,5) by linarith
  show "unat (cT - (pT - p)) < unat cT" using m a assms(3,5) by linarith
qed

lemma ex_final_child_stack:
  "stack_alloc_ptr (cmn (tcbs (snd (up_vfork ex_cfg ex_ext ex_context ex_state)) 0x200)) = 0x3000"
  "adj_stack_ptr (cmn (tcbs (snd (up_vfork ex_cfg ex_ext ex_context ex_state)) 0x200)) = 0x4000"
  "adj_stack_size (cmn (tcbs (snd (up_vfork ex_cfg ex_ext ex_context ex_state)) 0x200)) = 0x1000"
  unfolding final_stack[OF ex_proceeds up_vfork_pair]
  by (simp_all add: requested_stack_def ex_ext_def)

lemma ex_parent_stack:
  "stack_alloc_ptr (cmn (tcbs ex_state (this_task ex_state))) = 0x1000"
  "adj_stack_ptr (cmn (tcbs ex_state (this_task ex_state))) = 0x2000"
  "adj_stack_size (cmn (tcbs ex_state (this_task ex_state))) = 0x1000"
  by (simp_all add: this_task_def ex_state_def ex_parent_def)

lemmas ex_more_defs = ex_context_low_def ex_context_high_def ex_cfg_nodebug_def ex_ext_adjacent_def
  ex_ext_nosetup_def ex_ext_nostack_def ex_ext_nostart_def

lemma copy_count_bounds:
  fixes pT pA pS cT cA cS p :: u32
  assumes "pA \<le> p" "p < pT"
    and "unat pT \<le> unat pA + unat pS"
    and "unat cA \<le> unat cT" "unat cT \<le> unat cA + unat cS"
    and "unat pT - unat pA \<le> unat cT - unat cA"
  shows "unat (pT - p) \<le> min (unat pS) (unat cS)"
proof -
  have a: "unat pA \<le> unat p" "unat p < unat pT"
    using assms(1,2) by (simp_all add: word_le_nat_alt word_less_nat_alt)
  have n: "unat (pT - p) = unat pT - unat p"
    using assms(2) by (simp add: unat_sub)
  show ?thesis unfolding n using a assms(3-6) by arith
qed

lemma ex_valid:
  "sp_in_stack (cmn (tcbs ex_state (this_task ex_state))) (sp ex_context)"
  "stack_ok (cmn (tcbs ex_state (this_task ex_state)))"
  "stack_ok (cmn (tcbs (snd (up_vfork ex_cfg ex_ext ex_context ex_state)) 0x200))"
  "as_deep_as (cmn (tcbs (snd (up_vfork ex_cfg ex_ext ex_context ex_state)) 0x200))
        (cmn (tcbs ex_state (this_task ex_state)))"
  unfolding sp_in_stack_def stack_ok_def as_deep_as_def ex_final_child_stack ex_parent_stack
  by (simp_all add: ex_context_def)

lemma rounded_up_le: "0 < a \<Longrightarrow> n \<le> rounded_up a n \<and> rounded_up a n \<le> n + a - 1"
proof -
  assume a: "0 < a"
  have "(n + a - 1) div a * a \<le> n + a - 1" by simp
  moreover have "n \<le> (n + a - 1) div a * a"
  proof -
    have "n + a - 1 = (n + a - 1) div a * a + (n + a - 1) mod a" by simp
    moreover have "(n + a - 1) mod a < a" using a by simp
    ultimately show ?thesis by linarith
  qed
  ultimately show ?thesis by (simp add: rounded_up_def)
qed

lemma padded_size_unat:
  fixes sz al :: u32
  assumes "0 < al" "unat sz + unat al - 1 < 2 ^ 32"
  shows "unat (sz + al - 1) = unat sz + unat al - 1"
proof -
  have p: "0 < unat al" using assms(1) by (simp add: word_less_nat_alt)
  then have al: "1 \<le> al" by (simp add: word_le_nat_alt)
  have e: "sz + al - 1 = sz + (al - 1)" by simp
  have m: "unat (al - 1) = unat al - 1" using unat_sub[OF al] by simp
  have "unat sz + unat (al - 1) < 2 ^ LENGTH(32)" using assms(2) p m by simp
  then have "unat (sz + (al - 1)) = unat sz + unat (al - 1)"
    by (simp only: unat_add_lem[THEN iffD1])
  then show ?thesis unfolding e using m p by simp
qed

lemma window_unat:
  fixes sz al pT f :: u32
  assumes "0 < al" "unat sz + unat al - 1 \<le> unat pT"
  shows "(f \<le> pT \<and> pT - (sz + al - 1) \<le> f)
           = (unat pT - (unat sz + unat al - 1) \<le> unat f \<and> unat f \<le> unat pT)"
proof -
  have "unat pT < 2 ^ 32" using unsigned_less[of pT] by simp
  then have w: "unat sz + unat al - 1 < 2 ^ 32" using assms(2) by linarith
  note u = padded_size_unat[OF assms(1) w]
  have "sz + al - 1 \<le> pT" using u assms(2) by (simp add: word_le_nat_alt)
  then have "unat (pT - (sz + al - 1)) = unat pT - (unat sz + unat al - 1)"
    using u by (simp add: unat_sub)
  then show ?thesis by (auto simp: word_le_nat_alt)
qed

lemma ex_fp_proceeds: "vfork_proceeds ex_cfg ex_ext (ex_context_fp f) ex_state 0x200 ex_child"
  by (simp add: vfork_proceeds_def child_set_up_def requested_stack_def DEBUGASSERT_def
      this_task_def OK_def ex_defs ex_context_fp_def)

lemma ex_fp_child_top:
  "adj_stack_ptr (cmn (tcbs (snd (up_vfork ex_cfg ex_ext (ex_context_fp f) ex_state)) 0x200)) = 0x4000"
  unfolding final_stack[OF ex_fp_proceeds up_vfork_pair]
  by (simp add: requested_stack_def ex_ext_def)

lemma copy_syscall_same_fields: "same_fields cfg (copy_syscall cfg src dst) src"
  by (auto simp: same_fields_def copy_syscall_def has_cpsr_def has_excreturn_def Let_def)

lemma ex_idle_proceeds: "vfork_proceeds ex_cfg ex_ext ex_context ex_state_idle 0x200 ex_child"
  by (simp add: vfork_proceeds_def child_set_up_def requested_stack_def DEBUGASSERT_def
      this_task_def OK_def ex_defs ex_state_idle_def)

lemma copy_range:
  fixes a dst n :: u32
  assumes "a - dst < n" "unat dst + unat n \<le> 2 ^ 32"
  shows "unat dst \<le> unat a \<and> unat a < unat dst + unat n"
proof -
  have d: "unat (a - dst) < unat n" using assms(1) by (simp add: word_less_nat_alt)
  then have "unat dst + unat (a - dst) < 2 ^ LENGTH(32)" using assms(2) by simp
  then have "unat (dst + (a - dst)) = unat dst + unat (a - dst)"
    by (simp only: unat_add_lem[THEN iffD1])
  moreover have "dst + (a - dst) = a" by simp
  ultimately have "unat a = unat dst + unat (a - dst)" by simp
  with d show ?thesis by simp
qed

lemma ex_low_proceeds: "vfork_proceeds ex_cfg ex_ext ex_context_low ex_state 0x200 ex_child"
  by (simp add: vfork_proceeds_def child_set_up_def requested_stack_def DEBUGASSERT_def
      this_task_def OK_def ex_defs ex_context_low_def)

lemma ex_low_child_top:
  "adj_stack_ptr (cmn (tcbs (snd (up_vfork ex_cfg ex_ext ex_context_low ex_state)) 0x200)) = 0x4000"
  unfolding final_stack[OF ex_low_proceeds up_vfork_pair]
  by (simp add: requested_stack_def ex_ext_def)

section \<open>The claims\<close>

subsection \<open>C1: re-basing of the frame pointer\<close>

text \<open>
  C1, as stated: for a captured frame pointer inside the parent's stack window,
  \<open>childFp - childTop = parentTop - capturedFp\<close>. In the scenario of the specification the
  frame pointer \<open>0x1F80\<close> is inside the window, the child's frame pointer is \<open>0x3F80\<close>, and
  \<open>0x3F80 - 0x4000\<close> is not \<open>0x2000 - 0x1F80\<close>: the difference on the child's side has
  the opposite sign.
\<close>

theorem C1_counterexample:
  "fp ex_context \<le> adj_stack_ptr (cmn (tcbs ex_state (this_task ex_state)))
   \<and> adj_stack_ptr (cmn (tcbs ex_state (this_task ex_state)))
        - (adj_stack_size (cmn (tcbs ex_state (this_task ex_state))) + STACK_ALIGNMENT ex_cfg - 1)
        \<le> fp ex_context
   \<and> regs (xcp (cmn (tcbs (snd (up_vfork ex_cfg ex_ext ex_context ex_state)) 0x200))) (REG_FP ex_cfg)
        - adj_stack_ptr (cmn (tcbs (snd (up_vfork ex_cfg ex_ext ex_context ex_state)) 0x200))
      \<noteq> adj_stack_ptr (cmn (tcbs ex_state (this_task ex_state))) - fp ex_context"
  by (simp add: ex_defs run_defs)

text \<open>
  C1, amended: in a call that gets to the transfer, if the captured frame pointer lies in
  the parent's stack window \<open>[parentTop - stacksize, parentTop]\<close>, with \<open>stacksize\<close> the
  padded size \<open>adj_stack_size + STACK_ALIGNMENT - 1\<close>, then the frame pointer stored in the
  child's \<open>REG_FP\<close> slot satisfies \<open>childTop - childFp = parentTop - capturedFp\<close>;
  otherwise the slot holds the captured frame pointer unchanged. (\<open>REG_FP\<close> and \<open>REG_SP\<close>
  are different slots.)
\<close>

theorem C1_frame_pointer_rebased:
  assumes "vfork_proceeds cfg ext context s c t0"
    and "REG_FP cfg \<noteq> REG_SP cfg"
    and "up_vfork cfg ext context s = (out, s')"
  shows "if fp context \<le> adj_stack_ptr (cmn (tcbs s (this_task s)))
            \<and> adj_stack_ptr (cmn (tcbs s (this_task s)))
                 - (adj_stack_size (cmn (tcbs s (this_task s))) + STACK_ALIGNMENT cfg - 1)
               \<le> fp context
         then adj_stack_ptr (cmn (tcbs s' c)) - regs (xcp (cmn (tcbs s' c))) (REG_FP cfg)
                = adj_stack_ptr (cmn (tcbs s (this_task s))) - fp context
         else regs (xcp (cmn (tcbs s' c))) (REG_FP cfg) = fp context"
  using assms(2)
  by (simp add: final_regs[OF assms(1,3)] final_stack[OF assms(1,3)])

theorem C1_frame_pointer_rebased_witness:
  "vfork_proceeds ex_cfg ex_ext ex_context ex_state 0x200 ex_child
   \<and> vfork_proceeds ex_cfg ex_ext (ex_context_fp 0) ex_state 0x200 ex_child
   \<and> REG_FP ex_cfg \<noteq> REG_SP ex_cfg
   \<and> adj_stack_ptr (cmn (tcbs (snd (up_vfork ex_cfg ex_ext ex_context ex_state)) 0x200))
        - regs (xcp (cmn (tcbs (snd (up_vfork ex_cfg ex_ext ex_context ex_state)) 0x200))) (REG_FP ex_cfg)
      = 0x80
   \<and> adj_stack_ptr (cmn (tcbs ex_state (this_task ex_state))) - fp ex_context = 0x80
   \<and> regs (xcp (cmn (tcbs (snd (up_vfork ex_cfg ex_ext (ex_context_fp 0) ex_state)) 0x200))) (REG_FP ex_cfg)
      = 0"
proof -
  have h2: "REG_FP ex_cfg \<noteq> REG_SP ex_cfg" by (simp add: ex_cfg_def)
  note h3 = up_vfork_pair[of ex_cfg ex_ext ex_context ex_state]
  have w: "fp ex_context \<le> adj_stack_ptr (cmn (tcbs ex_state (this_task ex_state)))
            \<and> adj_stack_ptr (cmn (tcbs ex_state (this_task ex_state)))
                 - (adj_stack_size (cmn (tcbs ex_state (this_task ex_state))) + STACK_ALIGNMENT ex_cfg - 1)
               \<le> fp ex_context"
    and v: "adj_stack_ptr (cmn (tcbs ex_state (this_task ex_state))) - fp ex_context = 0x80"
    by (simp_all add: ex_defs this_task_def)
  have o: "\<not> (fp (ex_context_fp 0) \<le> adj_stack_ptr (cmn (tcbs ex_state (this_task ex_state)))
            \<and> adj_stack_ptr (cmn (tcbs ex_state (this_task ex_state)))
                 - (adj_stack_size (cmn (tcbs ex_state (this_task ex_state))) + STACK_ALIGNMENT ex_cfg - 1)
               \<le> fp (ex_context_fp 0))"
    and z: "fp (ex_context_fp 0) = 0"
    by (simp_all add: ex_defs this_task_def ex_context_fp_def)
  from C1_frame_pointer_rebased[OF ex_proceeds h2 h3] w v
  have a: "adj_stack_ptr (cmn (tcbs (snd (up_vfork ex_cfg ex_ext ex_context ex_state)) 0x200))
        - regs (xcp (cmn (tcbs (snd (up_vfork ex_cfg ex_ext ex_context ex_state)) 0x200))) (REG_FP ex_cfg)
      = 0x80"
    by simp
  from C1_frame_pointer_rebased[OF ex_fp_proceeds h2 up_vfork_pair, of 0] o z
  have b: "regs (xcp (cmn (tcbs (snd (up_vfork ex_cfg ex_ext (ex_context_fp 0) ex_state)) 0x200))) (REG_FP ex_cfg)
      = 0"
    by simp
  from ex_proceeds ex_fp_proceeds h2 a v b show ?thesis by blast
qed

subsection \<open>C3: the child's stack pointer\<close>

text \<open>
  C3: for a captured stack pointer below the parent's adjusted stack top and within the
  parent's stack region, the computed child stack pointer
  \<open>newsp = childTop - (parentTop - capturedSp)\<close> is the value stored in the child's
  \<open>REG_SP\<close> slot, and it lies within the child's allocated stack region
  \<open>[childBase, childBase + childSize)\<close>, strictly below the child's top. The TCB pair is
  valid: the child's adjusted top lies in the region the allocator reported, and the child's
  stack has at least as much room below its top as the parent's.
\<close>

theorem C3_child_sp_in_stack:
  assumes "vfork_proceeds cfg ext context s c t0"
    and "sp_in_stack (cmn (tcbs s (this_task s))) (sp context)"
    and "stack_ok (cmn (tcbs s' c))"
    and "as_deep_as (cmn (tcbs s' c)) (cmn (tcbs s (this_task s)))"
    and "up_vfork cfg ext context s = (out, s')"
  shows "regs (xcp (cmn (tcbs s' c))) (REG_SP cfg)
           = adj_stack_ptr (cmn (tcbs s' c)) - (adj_stack_ptr (cmn (tcbs s (this_task s))) - sp context)
         \<and> in_stack_region (cmn (tcbs s' c)) (regs (xcp (cmn (tcbs s' c))) (REG_SP cfg))
         \<and> regs (xcp (cmn (tcbs s' c))) (REG_SP cfg) < adj_stack_ptr (cmn (tcbs s' c))"
proof -
  have r: "regs (xcp (cmn (tcbs s' c))) (REG_SP cfg)
           = adj_stack_ptr (cmn (tcbs s' c)) - (adj_stack_ptr (cmn (tcbs s (this_task s))) - sp context)"
    by (simp add: final_regs[OF assms(1,5)] final_stack[OF assms(1,5)])
  note b = child_sp_bounds[of "stack_alloc_ptr (cmn (tcbs s (this_task s)))" "sp context"
      "adj_stack_ptr (cmn (tcbs s (this_task s)))" "stack_alloc_ptr (cmn (tcbs s' c))"
      "adj_stack_ptr (cmn (tcbs s' c))" "adj_stack_size (cmn (tcbs s' c))"]
  have h: "stack_alloc_ptr (cmn (tcbs s (this_task s))) \<le> sp context"
    "sp context < adj_stack_ptr (cmn (tcbs s (this_task s)))"
    "unat (stack_alloc_ptr (cmn (tcbs s' c))) \<le> unat (adj_stack_ptr (cmn (tcbs s' c)))"
    "unat (adj_stack_ptr (cmn (tcbs s' c))) \<le> unat (stack_alloc_ptr (cmn (tcbs s' c))) + unat (adj_stack_size (cmn (tcbs s' c)))"
    "unat (adj_stack_ptr (cmn (tcbs s (this_task s)))) - unat (stack_alloc_ptr (cmn (tcbs s (this_task s))))
       \<le> unat (adj_stack_ptr (cmn (tcbs s' c))) - unat (stack_alloc_ptr (cmn (tcbs s' c)))"
    using assms(2,3,4) by (simp_all add: sp_in_stack_def stack_ok_def as_deep_as_def)
  show ?thesis
    unfolding r in_stack_region_def word_less_nat_alt
    using b(3,4)[OF h] h(4) by simp
qed

theorem C3_child_sp_in_stack_witness:
  "vfork_proceeds ex_cfg ex_ext ex_context ex_state 0x200 ex_child
   \<and> sp_in_stack (cmn (tcbs ex_state (this_task ex_state))) (sp ex_context)
   \<and> stack_ok (cmn (tcbs (snd (up_vfork ex_cfg ex_ext ex_context ex_state)) 0x200))
   \<and> as_deep_as (cmn (tcbs (snd (up_vfork ex_cfg ex_ext ex_context ex_state)) 0x200))
        (cmn (tcbs ex_state (this_task ex_state)))
   \<and> regs (xcp (cmn (tcbs (snd (up_vfork ex_cfg ex_ext ex_context ex_state)) 0x200))) (REG_SP ex_cfg) = 0x3F00
   \<and> in_stack_region (cmn (tcbs (snd (up_vfork ex_cfg ex_ext ex_context ex_state)) 0x200))
        (regs (xcp (cmn (tcbs (snd (up_vfork ex_cfg ex_ext ex_context ex_state)) 0x200))) (REG_SP ex_cfg))"
proof -
  have h2: "sp_in_stack (cmn (tcbs ex_state (this_task ex_state))) (sp ex_context)"
    by (simp add: sp_in_stack_def ex_parent_stack) (simp add: ex_context_def)
  have h3: "stack_ok (cmn (tcbs (snd (up_vfork ex_cfg ex_ext ex_context ex_state)) 0x200))"
    by (simp add: stack_ok_def ex_final_child_stack)
  have h4: "as_deep_as (cmn (tcbs (snd (up_vfork ex_cfg ex_ext ex_context ex_state)) 0x200))
        (cmn (tcbs ex_state (this_task ex_state)))"
    by (simp add: as_deep_as_def ex_final_child_stack ex_parent_stack)
  have v: "adj_stack_ptr (cmn (tcbs (snd (up_vfork ex_cfg ex_ext ex_context ex_state)) 0x200))
            - (adj_stack_ptr (cmn (tcbs ex_state (this_task ex_state))) - sp ex_context) = 0x3F00"
    by (simp add: ex_final_child_stack ex_parent_stack) (simp add: ex_context_def)
  note t = C3_child_sp_in_stack[OF ex_proceeds h2 h3 h4 up_vfork_pair]
  from t have r: "regs (xcp (cmn (tcbs (snd (up_vfork ex_cfg ex_ext ex_context ex_state)) 0x200))) (REG_SP ex_cfg) = 0x3F00"
    unfolding v by (rule conjunct1)
  from t have i: "in_stack_region (cmn (tcbs (snd (up_vfork ex_cfg ex_ext ex_context ex_state)) 0x200))
        (regs (xcp (cmn (tcbs (snd (up_vfork ex_cfg ex_ext ex_context ex_state)) 0x200))) (REG_SP ex_cfg))"
    by blast
  from ex_proceeds h2 h3 h4 r i show ?thesis by blast
qed

subsection \<open>C2: the number of bytes copied\<close>

text \<open>
  C2, as stated: in every call that performs the stack copy, the number of bytes copied does
  not exceed the smaller of the two stack sizes. With the captured stack pointer \<open>0x800\<close>,
  below the parent's stack \<open>[0x1000, 0x2000)\<close>, the assertion \<open>parentTop > sp\<close> holds, and
  \<open>0x1800\<close> bytes are copied although both stacks have \<open>0x1000\<close> bytes.
\<close>

theorem C2_counterexample:
  "filter is_memcpy (new_events ex_state (snd (up_vfork ex_cfg ex_ext ex_context_low ex_state)))
     = [Ev_memcpy 0x2800 0x800 0x1800]
   \<and> \<not> unat (0x1800 :: u32)
        \<le> min (unat (adj_stack_size (cmn (tcbs ex_state (this_task ex_state)))))
              (unat (adj_stack_size (cmn (tcbs (snd (up_vfork ex_cfg ex_ext ex_context_low ex_state)) 0x200))))"
  by (simp add: ex_defs ex_more_defs run_defs new_events_def)

text \<open>
  C2, amended: every call that gets to the transfer makes exactly one copy, of
  \<open>parentTop - capturedSp\<close> bytes (modulo \<open>2^32\<close>) from the captured stack pointer to the
  child's new stack pointer. If moreover the captured stack pointer lies in the parent's
  stack below its adjusted top, both stacks are well formed and the child's stack has at
  least as much room below its top as the parent's, this count does not exceed the smaller
  of the two stack sizes.
\<close>

theorem C2_bytes_copied:
  assumes "vfork_proceeds cfg ext context s c t0"
    and "up_vfork cfg ext context s = (out, s')"
  shows "filter is_memcpy (new_events s s')
           = [Ev_memcpy (adj_stack_ptr (cmn (tcbs s' c)) - (adj_stack_ptr (cmn (tcbs s (this_task s))) - sp context))
                (sp context)
                (adj_stack_ptr (cmn (tcbs s (this_task s))) - sp context)]
         \<and> (sp_in_stack (cmn (tcbs s (this_task s))) (sp context)
              \<and> stack_ok (cmn (tcbs s (this_task s)))
              \<and> stack_ok (cmn (tcbs s' c))
              \<and> as_deep_as (cmn (tcbs s' c)) (cmn (tcbs s (this_task s)))
            \<longrightarrow> unat (adj_stack_ptr (cmn (tcbs s (this_task s))) - sp context)
                  \<le> min (unat (adj_stack_size (cmn (tcbs s (this_task s)))))
                        (unat (adj_stack_size (cmn (tcbs s' c)))))"
proof -
  from final_new_events[OF assms] have count:
    "filter is_memcpy (new_events s s')
           = [Ev_memcpy (adj_stack_ptr (cmn (tcbs s' c)) - (adj_stack_ptr (cmn (tcbs s (this_task s))) - sp context))
                (sp context)
                (adj_stack_ptr (cmn (tcbs s (this_task s))) - sp context)]"
    by (auto simp: final_stack[OF assms])
  have bound: "unat (adj_stack_ptr (cmn (tcbs s (this_task s))) - sp context)
             \<le> min (unat (adj_stack_size (cmn (tcbs s (this_task s)))))
                   (unat (adj_stack_size (cmn (tcbs s' c))))"
    if "sp_in_stack (cmn (tcbs s (this_task s))) (sp context)"
      and "stack_ok (cmn (tcbs s (this_task s)))"
      and "stack_ok (cmn (tcbs s' c))"
      and "as_deep_as (cmn (tcbs s' c)) (cmn (tcbs s (this_task s)))"
    using that
    by (intro copy_count_bounds[of "stack_alloc_ptr (cmn (tcbs s (this_task s)))" _ _ _
          "stack_alloc_ptr (cmn (tcbs s' c))" "adj_stack_ptr (cmn (tcbs s' c))"])
       (simp_all add: sp_in_stack_def stack_ok_def as_deep_as_def)
  from count bound show ?thesis by blast
qed

theorem C2_bytes_copied_witness:
  "vfork_proceeds ex_cfg ex_ext ex_context ex_state 0x200 ex_child
   \<and> vfork_proceeds ex_cfg ex_ext ex_context_low ex_state 0x200 ex_child
   \<and> sp_in_stack (cmn (tcbs ex_state (this_task ex_state))) (sp ex_context)
   \<and> stack_ok (cmn (tcbs ex_state (this_task ex_state)))
   \<and> stack_ok (cmn (tcbs (snd (up_vfork ex_cfg ex_ext ex_context ex_state)) 0x200))
   \<and> as_deep_as (cmn (tcbs (snd (up_vfork ex_cfg ex_ext ex_context ex_state)) 0x200))
        (cmn (tcbs ex_state (this_task ex_state)))
   \<and> filter is_memcpy (new_events ex_state (snd (up_vfork ex_cfg ex_ext ex_context ex_state)))
       = [Ev_memcpy 0x3F00 0x1F00 0x100]
   \<and> unat (0x100 :: u32)
       \<le> min (unat (adj_stack_size (cmn (tcbs ex_state (this_task ex_state)))))
             (unat (adj_stack_size (cmn (tcbs (snd (up_vfork ex_cfg ex_ext ex_context ex_state)) 0x200))))
   \<and> filter is_memcpy (new_events ex_state (snd (up_vfork ex_cfg ex_ext ex_context_low ex_state)))
       = [Ev_memcpy 0x2800 0x800 0x1800]"
proof -
  note t = C2_bytes_copied[OF ex_proceeds up_vfork_pair]
  note tl = C2_bytes_copied[OF ex_low_proceeds up_vfork_pair]
  have v: "adj_stack_ptr (cmn (tcbs ex_state (this_task ex_state))) - sp ex_context = 0x100"
    unfolding ex_parent_stack by (simp add: ex_context_def)
  from t have a: "filter is_memcpy (new_events ex_state (snd (up_vfork ex_cfg ex_ext ex_context ex_state)))
       = [Ev_memcpy 0x3F00 0x1F00 0x100]"
    unfolding ex_final_child_stack ex_parent_stack by (simp add: ex_context_def)
  from t ex_valid have "unat (adj_stack_ptr (cmn (tcbs ex_state (this_task ex_state))) - sp ex_context)
       \<le> min (unat (adj_stack_size (cmn (tcbs ex_state (this_task ex_state)))))
             (unat (adj_stack_size (cmn (tcbs (snd (up_vfork ex_cfg ex_ext ex_context ex_state)) 0x200))))"
    by blast
  then have b: "unat (0x100 :: u32)
       \<le> min (unat (adj_stack_size (cmn (tcbs ex_state (this_task ex_state)))))
             (unat (adj_stack_size (cmn (tcbs (snd (up_vfork ex_cfg ex_ext ex_context ex_state)) 0x200))))"
    unfolding v .
  from tl have c: "filter is_memcpy (new_events ex_state (snd (up_vfork ex_cfg ex_ext ex_context_low ex_state)))
       = [Ev_memcpy 0x2800 0x800 0x1800]"
    unfolding ex_low_child_top ex_parent_stack by (simp add: ex_context_low_def ex_context_def)
  from ex_proceeds ex_low_proceeds ex_valid a b c show ?thesis by blast
qed

subsection \<open>C4: the stack size requested for the child\<close>

text \<open>
  C4, as stated: the requested size is the parent's adjusted stack size rounded up to the
  alignment granularity. For the adjusted size \<open>0x1000\<close> and the alignment \<open>8\<close> the code
  requests \<open>0x1007\<close> bytes, while \<open>0x1000\<close> rounded up to a multiple of \<open>8\<close> is \<open>0x1000\<close>.
\<close>

theorem C4_counterexample:
  "filter is_create_stack (new_events ex_state (snd (up_vfork ex_cfg ex_ext ex_context ex_state)))
     = [Ev_up_create_stack 0x200 0x1007 1]
   \<and> unat (0x1007 :: u32)
       \<noteq> rounded_up (unat (STACK_ALIGNMENT ex_cfg))
            (unat (adj_stack_size (cmn (tcbs ex_state (this_task ex_state)))))"
  by (simp add: ex_defs run_defs new_events_def rounded_up_def)

text \<open>
  C4, amended: once the child TCB is set up, the one stack request that the call makes asks
  for the parent's adjusted stack size plus \<open>STACK_ALIGNMENT - 1\<close> (modulo \<open>2^32\<close>), for
  the parent's task type. Where this sum does not wrap around, it is at least the adjusted
  size rounded up to the alignment granularity, hence at least the adjusted size, and at
  least the parent's stack usage \<open>parentTop - capturedSp\<close> for a captured stack pointer
  inside a well-formed parent stack.
\<close>

theorem C4_requested_stack_size:
  assumes "child_set_up ext context s c t0"
    and "up_vfork cfg ext context s = (out, s')"
  shows "filter is_create_stack (new_events s s')
           = [Ev_up_create_stack c
                (adj_stack_size (cmn (tcbs s (this_task s))) + STACK_ALIGNMENT cfg - 1)
                (flags (cmn (tcbs s (this_task s))) AND TCB_FLAG_TTYPE_MASK cfg)]
         \<and> (0 < STACK_ALIGNMENT cfg
              \<and> unat (adj_stack_size (cmn (tcbs s (this_task s)))) + unat (STACK_ALIGNMENT cfg) - 1 < 2 ^ 32
            \<longrightarrow> rounded_up (unat (STACK_ALIGNMENT cfg)) (unat (adj_stack_size (cmn (tcbs s (this_task s)))))
                  \<le> unat (adj_stack_size (cmn (tcbs s (this_task s))) + STACK_ALIGNMENT cfg - 1)
                \<and> unat (adj_stack_size (cmn (tcbs s (this_task s))))
                  \<le> unat (adj_stack_size (cmn (tcbs s (this_task s))) + STACK_ALIGNMENT cfg - 1)
                \<and> (sp_in_stack (cmn (tcbs s (this_task s))) (sp context)
                      \<and> stack_ok (cmn (tcbs s (this_task s)))
                    \<longrightarrow> unat (adj_stack_ptr (cmn (tcbs s (this_task s))) - sp context)
                          \<le> unat (adj_stack_size (cmn (tcbs s (this_task s))) + STACK_ALIGNMENT cfg - 1)))"
proof -
  let ?P = "cmn (tcbs s (this_task s))"
  have ev: "filter is_create_stack (new_events s s')
           = [Ev_up_create_stack c (adj_stack_size ?P + STACK_ALIGNMENT cfg - 1)
                (flags ?P AND TCB_FLAG_TTYPE_MASK cfg)]"
    using child_set_up_cases[OF assms] by auto
  have sz: "rounded_up (unat (STACK_ALIGNMENT cfg)) (unat (adj_stack_size ?P))
                  \<le> unat (adj_stack_size ?P + STACK_ALIGNMENT cfg - 1)
            \<and> unat (adj_stack_size ?P) \<le> unat (adj_stack_size ?P + STACK_ALIGNMENT cfg - 1)
            \<and> (sp_in_stack ?P (sp context) \<and> stack_ok ?P
                \<longrightarrow> unat (adj_stack_ptr ?P - sp context)
                      \<le> unat (adj_stack_size ?P + STACK_ALIGNMENT cfg - 1))"
    if a: "0 < STACK_ALIGNMENT cfg"
      and w: "unat (adj_stack_size ?P) + unat (STACK_ALIGNMENT cfg) - 1 < 2 ^ 32"
  proof -
    have p: "0 < unat (STACK_ALIGNMENT cfg)" using a by (simp add: word_less_nat_alt)
    note u = padded_size_unat[OF a w]
    note r = rounded_up_le[OF p, of "unat (adj_stack_size ?P)"]
    have use: "unat (adj_stack_ptr ?P - sp context) \<le> unat (adj_stack_size ?P + STACK_ALIGNMENT cfg - 1)"
      if v: "sp_in_stack ?P (sp context)" "stack_ok ?P"
    proof -
      have lt: "sp context < adj_stack_ptr ?P" and le: "stack_alloc_ptr ?P \<le> sp context"
        using v(1) by (simp_all add: sp_in_stack_def)
      have "unat (adj_stack_ptr ?P - sp context) = unat (adj_stack_ptr ?P) - unat (sp context)"
        using lt by (simp add: unat_sub)
      moreover have "unat (stack_alloc_ptr ?P) \<le> unat (sp context)"
        using le by (simp add: word_le_nat_alt)
      moreover have "unat (adj_stack_ptr ?P) \<le> unat (stack_alloc_ptr ?P) + unat (adj_stack_size ?P)"
        using v(2) by (simp add: stack_ok_def)
      ultimately show ?thesis using u r by linarith
    qed
    show ?thesis using u r use by auto
  qed
  from ev sz show ?thesis by blast
qed

theorem C4_requested_stack_size_witness:
  "child_set_up ex_ext ex_context ex_state 0x200 ex_child
   \<and> 0 < STACK_ALIGNMENT ex_cfg
   \<and> unat (adj_stack_size (cmn (tcbs ex_state (this_task ex_state)))) + unat (STACK_ALIGNMENT ex_cfg) - 1 < 2 ^ 32
   \<and> sp_in_stack (cmn (tcbs ex_state (this_task ex_state))) (sp ex_context)
   \<and> stack_ok (cmn (tcbs ex_state (this_task ex_state)))
   \<and> filter is_create_stack (new_events ex_state (snd (up_vfork ex_cfg ex_ext ex_context ex_state)))
       = [Ev_up_create_stack 0x200 0x1007 1]
   \<and> rounded_up 8 0x1000 \<le> unat (0x1007 :: u32)
   \<and> unat (0x100 :: u32) \<le> unat (0x1007 :: u32)"
proof -
  have h1: "child_set_up ex_ext ex_context ex_state 0x200 ex_child"
    using ex_proceeds by (simp add: vfork_proceeds_def)
  have h2: "0 < STACK_ALIGNMENT ex_cfg"
    "unat (adj_stack_size (cmn (tcbs ex_state (this_task ex_state)))) + unat (STACK_ALIGNMENT ex_cfg) - 1 < 2 ^ 32"
    unfolding ex_parent_stack by (simp_all add: ex_cfg_def)
  note t = C4_requested_stack_size[OF h1 up_vfork_pair, of ex_cfg]
  from t have e: "filter is_create_stack (new_events ex_state (snd (up_vfork ex_cfg ex_ext ex_context ex_state)))
       = [Ev_up_create_stack 0x200 0x1007 1]"
    unfolding ex_parent_stack by (simp add: this_task_def ex_state_def ex_parent_def ex_cfg_def)
  from t h2 ex_valid(1,2) have "rounded_up (unat (STACK_ALIGNMENT ex_cfg)) (unat (adj_stack_size (cmn (tcbs ex_state (this_task ex_state)))))
                  \<le> unat (adj_stack_size (cmn (tcbs ex_state (this_task ex_state))) + STACK_ALIGNMENT ex_cfg - 1)
     \<and> unat (adj_stack_ptr (cmn (tcbs ex_state (this_task ex_state))) - sp ex_context)
                          \<le> unat (adj_stack_size (cmn (tcbs ex_state (this_task ex_state))) + STACK_ALIGNMENT ex_cfg - 1)"
    by blast
  then have r: "rounded_up 8 0x1000 \<le> unat (0x1007 :: u32) \<and> unat (0x100 :: u32) \<le> unat (0x1007 :: u32)"
    unfolding ex_parent_stack by (simp add: ex_cfg_def ex_context_def)
  from h1 h2 ex_valid(1,2) e r show ?thesis by blast
qed

subsection \<open>C8: the slots that the transfer writes\<close>

text \<open>
  C8: in a call that gets to the transfer, every slot of the child's saved-register array
  other than those of r4 to r10, the frame pointer and the stack pointer holds what setup
  left in it; in particular the return-value register R0, which is none of these slots,
  reads as zero when setup zero-initialised it.
\<close>

theorem C8_only_transfer_slots_written:
  assumes "vfork_proceeds cfg ext context s c t0"
    and "up_vfork cfg ext context s = (out, s')"
  shows "(\<forall>i. i \<notin> transfer_slots cfg \<longrightarrow> regs (xcp (cmn (tcbs s' c))) i = regs (xcp (cmn t0)) i)
         \<and> (REG_R0 cfg \<notin> transfer_slots cfg \<and> regs (xcp (cmn t0)) (REG_R0 cfg) = 0
              \<longrightarrow> regs (xcp (cmn (tcbs s' c))) (REG_R0 cfg) = 0)"
  by (simp add: final_regs[OF assms] transfer_slots_def)

theorem C8_only_transfer_slots_written_witness:
  "vfork_proceeds ex_cfg ex_ext ex_context ex_state 0x200 ex_child
   \<and> REG_R0 ex_cfg \<notin> transfer_slots ex_cfg
   \<and> regs (xcp (cmn ex_child)) (REG_R0 ex_cfg) = 0
   \<and> regs (xcp (cmn (tcbs (snd (up_vfork ex_cfg ex_ext ex_context ex_state)) 0x200))) (REG_R0 ex_cfg) = 0
   \<and> (1::nat) \<notin> transfer_slots ex_cfg
   \<and> regs (xcp (cmn (tcbs (snd (up_vfork ex_cfg ex_ext ex_context ex_state)) 0x200))) 1
       = regs (xcp (cmn ex_child)) 1"
proof -
  have h: "REG_R0 ex_cfg \<notin> transfer_slots ex_cfg" "regs (xcp (cmn ex_child)) (REG_R0 ex_cfg) = 0"
    "(1::nat) \<notin> transfer_slots ex_cfg"
    by (simp_all add: transfer_slots_def ex_cfg_def ex_child_def ex_xcp_def)
  note t = C8_only_transfer_slots_written[OF ex_proceeds up_vfork_pair]
  from t h ex_proceeds show ?thesis by blast
qed

subsection \<open>C10: the bounds of the frame-pointer window\<close>

text \<open>
  C10: the in-window test is inclusive at both ends and its lower bound is the parent's top
  minus the padded size \<open>adj_stack_size + STACK_ALIGNMENT - 1\<close>. Where the window does not
  wrap around below address zero: a captured frame pointer equal to the parent's adjusted
  top is re-based to the child's adjusted top; a captured frame pointer \<open>k\<close> bytes below
  \<open>parentTop - adj_stack_size\<close>, for \<open>k\<close> up to \<open>STACK_ALIGNMENT - 1\<close>, is still re-based,
  to \<open>childTop - (adj_stack_size + k)\<close>; a frame pointer below the padded bound or above the
  top is kept as it is.
\<close>

theorem C10_window_inclusive_padded:
  assumes "vfork_proceeds cfg ext context s c t0"
    and "REG_FP cfg \<noteq> REG_SP cfg"
    and "0 < STACK_ALIGNMENT cfg"
    and "unat (adj_stack_size (cmn (tcbs s (this_task s)))) + unat (STACK_ALIGNMENT cfg) - 1
           \<le> unat (adj_stack_ptr (cmn (tcbs s (this_task s))))"
    and "up_vfork cfg ext context s = (out, s')"
  shows "(fp context = adj_stack_ptr (cmn (tcbs s (this_task s)))
            \<longrightarrow> regs (xcp (cmn (tcbs s' c))) (REG_FP cfg) = adj_stack_ptr (cmn (tcbs s' c)))
         \<and> (\<forall>k. unat k \<le> unat (STACK_ALIGNMENT cfg) - 1
                 \<and> fp context = adj_stack_ptr (cmn (tcbs s (this_task s)))
                                  - adj_stack_size (cmn (tcbs s (this_task s))) - k
              \<longrightarrow> regs (xcp (cmn (tcbs s' c))) (REG_FP cfg)
                    = adj_stack_ptr (cmn (tcbs s' c)) - (adj_stack_size (cmn (tcbs s (this_task s))) + k))
         \<and> (unat (fp context) < unat (adj_stack_ptr (cmn (tcbs s (this_task s))))
                                   - (unat (adj_stack_size (cmn (tcbs s (this_task s))))
                                        + unat (STACK_ALIGNMENT cfg) - 1)
              \<or> unat (adj_stack_ptr (cmn (tcbs s (this_task s)))) < unat (fp context)
              \<longrightarrow> regs (xcp (cmn (tcbs s' c))) (REG_FP cfg) = fp context)"
proof -
  let ?pT = "adj_stack_ptr (cmn (tcbs s (this_task s)))"
  let ?sz = "adj_stack_size (cmn (tcbs s (this_task s)))"
  let ?al = "STACK_ALIGNMENT cfg"
  let ?cT = "adj_stack_ptr (cmn (tcbs s' c))"
  let ?in = "unat ?pT - (unat ?sz + unat ?al - 1) \<le> unat (fp context) \<and> unat (fp context) \<le> unat ?pT"
  have fpv: "regs (xcp (cmn (tcbs s' c))) (REG_FP cfg)
              = (if ?in then ?cT - (?pT - fp context) else fp context)"
    using assms(2)
    by (simp add: final_regs[OF assms(1,5)] final_stack[OF assms(1,5)] window_unat[OF assms(3,4)])
  have top: "regs (xcp (cmn (tcbs s' c))) (REG_FP cfg) = ?cT" if "fp context = ?pT"
    unfolding fpv using that by simp
  have low: "regs (xcp (cmn (tcbs s' c))) (REG_FP cfg) = ?cT - (?sz + k)"
    if k: "unat k \<le> unat ?al - 1" and f: "fp context = ?pT - ?sz - k" for k
  proof -
    have "unat ?pT < 2 ^ 32" using unsigned_less[of ?pT] by simp
    moreover have p: "0 < unat ?al" using assms(3) by (simp add: word_less_nat_alt)
    ultimately have "unat ?sz + unat k < 2 ^ LENGTH(32)" using k assms(4) by simp
    then have sk: "unat (?sz + k) = unat ?sz + unat k" by (simp only: unat_add_lem[THEN iffD1])
    then have "?sz + k \<le> ?pT" using k assms(4) p by (simp add: word_le_nat_alt)
    then have "unat (?pT - (?sz + k)) = unat ?pT - (unat ?sz + unat k)"
      using sk by (simp add: unat_sub)
    moreover have f': "fp context = ?pT - (?sz + k)" using f by simp
    ultimately have "?in" using k p assms(4) by simp
    then show ?thesis unfolding fpv using f' by simp
  qed
  have out: "regs (xcp (cmn (tcbs s' c))) (REG_FP cfg) = fp context"
    if "unat (fp context) < unat ?pT - (unat ?sz + unat ?al - 1) \<or> unat ?pT < unat (fp context)"
    unfolding fpv using that by auto
  from top low out show ?thesis by blast
qed

theorem C10_window_inclusive_padded_witness:
  "vfork_proceeds ex_cfg ex_ext (ex_context_fp 0x2000) ex_state 0x200 ex_child
   \<and> vfork_proceeds ex_cfg ex_ext (ex_context_fp 0xFF9) ex_state 0x200 ex_child
   \<and> vfork_proceeds ex_cfg ex_ext (ex_context_fp 0xFF8) ex_state 0x200 ex_child
   \<and> REG_FP ex_cfg \<noteq> REG_SP ex_cfg
   \<and> 0 < STACK_ALIGNMENT ex_cfg
   \<and> unat (adj_stack_size (cmn (tcbs ex_state (this_task ex_state)))) + unat (STACK_ALIGNMENT ex_cfg) - 1
         \<le> unat (adj_stack_ptr (cmn (tcbs ex_state (this_task ex_state))))
   \<and> regs (xcp (cmn (tcbs (snd (up_vfork ex_cfg ex_ext (ex_context_fp 0x2000) ex_state)) 0x200))) (REG_FP ex_cfg)
       = 0x4000
   \<and> regs (xcp (cmn (tcbs (snd (up_vfork ex_cfg ex_ext (ex_context_fp 0xFF9) ex_state)) 0x200))) (REG_FP ex_cfg)
       = 0x2FF9
   \<and> regs (xcp (cmn (tcbs (snd (up_vfork ex_cfg ex_ext (ex_context_fp 0xFF8) ex_state)) 0x200))) (REG_FP ex_cfg)
       = 0xFF8"
proof -
  have h2: "REG_FP ex_cfg \<noteq> REG_SP ex_cfg" and h3: "0 < STACK_ALIGNMENT ex_cfg"
    by (simp_all add: ex_cfg_def)
  have h4: "unat (adj_stack_size (cmn (tcbs ex_state (this_task ex_state)))) + unat (STACK_ALIGNMENT ex_cfg) - 1
         \<le> unat (adj_stack_ptr (cmn (tcbs ex_state (this_task ex_state))))"
    unfolding ex_parent_stack by (simp add: ex_cfg_def)
  note t = C10_window_inclusive_padded[OF ex_fp_proceeds h2 h3 h4 up_vfork_pair]
  have a: "regs (xcp (cmn (tcbs (snd (up_vfork ex_cfg ex_ext (ex_context_fp 0x2000) ex_state)) 0x200))) (REG_FP ex_cfg)
       = 0x4000"
  proof -
    have "fp (ex_context_fp 0x2000) = adj_stack_ptr (cmn (tcbs ex_state (this_task ex_state)))"
      unfolding ex_parent_stack by (simp add: ex_context_fp_def)
    with t[of "0x2000"] show ?thesis unfolding ex_fp_child_top by blast
  qed
  have b: "regs (xcp (cmn (tcbs (snd (up_vfork ex_cfg ex_ext (ex_context_fp 0xFF9) ex_state)) 0x200))) (REG_FP ex_cfg)
       = 0x2FF9"
  proof -
    have "unat (7 :: u32) \<le> unat (STACK_ALIGNMENT ex_cfg) - 1
        \<and> fp (ex_context_fp 0xFF9) = adj_stack_ptr (cmn (tcbs ex_state (this_task ex_state)))
                                  - adj_stack_size (cmn (tcbs ex_state (this_task ex_state))) - 7"
      unfolding ex_parent_stack by (simp add: ex_context_fp_def ex_cfg_def)
    with t[of "0xFF9"] have "regs (xcp (cmn (tcbs (snd (up_vfork ex_cfg ex_ext (ex_context_fp 0xFF9) ex_state)) 0x200))) (REG_FP ex_cfg)
       = adj_stack_ptr (cmn (tcbs (snd (up_vfork ex_cfg ex_ext (ex_context_fp 0xFF9) ex_state)) 0x200))
           - (adj_stack_size (cmn (tcbs ex_state (this_task ex_state))) + 7)"
      by blast
    then show ?thesis unfolding ex_fp_child_top ex_parent_stack by simp
  qed
  have c: "regs (xcp (cmn (tcbs (snd (up_vfork ex_cfg ex_ext (ex_context_fp 0xFF8) ex_state)) 0x200))) (REG_FP ex_cfg)
       = 0xFF8"
  proof -
    have "unat (fp (ex_context_fp 0xFF8)) < unat (adj_stack_ptr (cmn (tcbs ex_state (this_task ex_state))))
                                   - (unat (adj_stack_size (cmn (tcbs ex_state (this_task ex_state))))
                                        + unat (STACK_ALIGNMENT ex_cfg) - 1)"
      unfolding ex_parent_stack by (simp add: ex_context_fp_def ex_cfg_def)
    with t[of "0xFF8"] have "regs (xcp (cmn (tcbs (snd (up_vfork ex_cfg ex_ext (ex_context_fp 0xFF8) ex_state)) 0x200))) (REG_FP ex_cfg)
       = fp (ex_context_fp 0xFF8)"
      by blast
    then show ?thesis by (simp add: ex_context_fp_def)
  qed
  from ex_fp_proceeds h2 h3 h4 a b c show ?thesis by blast
qed

subsection \<open>C6: the nested system-call records\<close>

text \<open>
  C6: in a build with \<^verbatim>\<open>CONFIG_LIB_SYSCALL\<close> whose platform defines the copy rule, if the
  parent has \<open>N \<ge> 1\<close> pending system-call records when a call gets to the transfer, then
  afterwards the child's count is \<open>N\<close>, each of the child's first \<open>N\<close> records is identical
  field for field to the parent's record at the same index, and the records from \<open>N\<close> on
  are as setup left them; if \<open>N = 0\<close>, the child's count and records are as setup left them.
\<close>

theorem C6_syscall_records_replicated:
  assumes "vfork_proceeds cfg ext context s c t0"
    and "CONFIG_LIB_SYSCALL cfg"
    and "syscall_logic_defined cfg"
    and "up_vfork cfg ext context s = (out, s')"
  shows "(1 \<le> nsyscalls (xcp (cmn (tcbs s (this_task s))))
            \<longrightarrow> nsyscalls (xcp (cmn (tcbs s' c))) = nsyscalls (xcp (cmn (tcbs s (this_task s))))
                \<and> (\<forall>i < nsyscalls (xcp (cmn (tcbs s (this_task s)))).
                      same_fields cfg (syscall (xcp (cmn (tcbs s' c))) i)
                                      (syscall (xcp (cmn (tcbs s (this_task s)))) i))
                \<and> (\<forall>i \<ge> nsyscalls (xcp (cmn (tcbs s (this_task s)))).
                      syscall (xcp (cmn (tcbs s' c))) i = syscall (xcp (cmn t0)) i))
         \<and> (nsyscalls (xcp (cmn (tcbs s (this_task s)))) = 0
            \<longrightarrow> nsyscalls (xcp (cmn (tcbs s' c))) = nsyscalls (xcp (cmn t0))
                \<and> syscall (xcp (cmn (tcbs s' c))) = syscall (xcp (cmn t0)))"
proof -
  have pos: "nsyscalls (xcp (cmn (tcbs s' c))) = nsyscalls (xcp (cmn (tcbs s (this_task s))))
                \<and> (\<forall>i < nsyscalls (xcp (cmn (tcbs s (this_task s)))).
                      same_fields cfg (syscall (xcp (cmn (tcbs s' c))) i)
                                      (syscall (xcp (cmn (tcbs s (this_task s)))) i))
                \<and> (\<forall>i \<ge> nsyscalls (xcp (cmn (tcbs s (this_task s)))).
                      syscall (xcp (cmn (tcbs s' c))) i = syscall (xcp (cmn t0)) i)"
    if n: "1 \<le> nsyscalls (xcp (cmn (tcbs s (this_task s))))"
  proof -
    from n have n': "0 < nsyscalls (xcp (cmn (tcbs s (this_task s))))" by simp
    note f = final_syscalls[OF assms(1,4,2) n']
    show ?thesis by (simp add: f copy_syscall_same_fields)
  qed
  have zero: "nsyscalls (xcp (cmn (tcbs s' c))) = nsyscalls (xcp (cmn t0))
                \<and> syscall (xcp (cmn (tcbs s' c))) = syscall (xcp (cmn t0))"
    if "nsyscalls (xcp (cmn (tcbs s (this_task s)))) = 0"
    using final_syscalls_noop[OF assms(1,4)] that by simp
  from pos zero show ?thesis by blast
qed

theorem C6_syscall_records_replicated_witness:
  "vfork_proceeds ex_cfg ex_ext ex_context ex_state 0x200 ex_child
   \<and> vfork_proceeds ex_cfg ex_ext ex_context ex_state_idle 0x200 ex_child
   \<and> CONFIG_LIB_SYSCALL ex_cfg \<and> syscall_logic_defined ex_cfg
   \<and> 1 \<le> nsyscalls (xcp (cmn (tcbs ex_state (this_task ex_state))))
   \<and> nsyscalls (xcp (cmn (tcbs ex_state_idle (this_task ex_state_idle)))) = 0
   \<and> nsyscalls (xcp (cmn (tcbs (snd (up_vfork ex_cfg ex_ext ex_context ex_state)) 0x200))) = 2
   \<and> sysreturn (syscall (xcp (cmn (tcbs (snd (up_vfork ex_cfg ex_ext ex_context ex_state)) 0x200))) 1) = 0x8001
   \<and> excreturn (syscall (xcp (cmn (tcbs (snd (up_vfork ex_cfg ex_ext ex_context ex_state)) 0x200))) 1) = 0xFFFFFFFD
   \<and> nsyscalls (xcp (cmn (tcbs (snd (up_vfork ex_cfg ex_ext ex_context ex_state_idle)) 0x200))) = 0"
proof -
  have h: "CONFIG_LIB_SYSCALL ex_cfg" "syscall_logic_defined ex_cfg"
    by (simp_all add: ex_cfg_def syscall_logic_defined_def)
  have n: "nsyscalls (xcp (cmn (tcbs ex_state (this_task ex_state)))) = 2"
    "nsyscalls (xcp (cmn (tcbs ex_state_idle (this_task ex_state_idle)))) = 0"
    "syscall (xcp (cmn (tcbs ex_state (this_task ex_state)))) 1
       = \<lparr>sysreturn = 0x8001, cpsr = 0x13, excreturn = 0xFFFFFFFD\<rparr>"
    "nsyscalls (xcp (cmn ex_child)) = 0"
    by (simp_all add: this_task_def ex_state_def ex_state_idle_def ex_parent_def ex_xcp_def ex_child_def)
  note t = C6_syscall_records_replicated[OF ex_proceeds h up_vfork_pair]
  note t0 = C6_syscall_records_replicated[OF ex_idle_proceeds h up_vfork_pair]
  from t have a: "nsyscalls (xcp (cmn (tcbs (snd (up_vfork ex_cfg ex_ext ex_context ex_state)) 0x200))) = 2"
    unfolding n by simp
  from t have "same_fields ex_cfg (syscall (xcp (cmn (tcbs (snd (up_vfork ex_cfg ex_ext ex_context ex_state)) 0x200))) 1)
                 (syscall (xcp (cmn (tcbs ex_state (this_task ex_state)))) 1)"
    unfolding n(1) by simp
  then have b: "sysreturn (syscall (xcp (cmn (tcbs (snd (up_vfork ex_cfg ex_ext ex_context ex_state)) 0x200))) 1) = 0x8001
     \<and> excreturn (syscall (xcp (cmn (tcbs (snd (up_vfork ex_cfg ex_ext ex_context ex_state)) 0x200))) 1) = 0xFFFFFFFD"
    unfolding n(3) same_fields_def has_excreturn_def has_cpsr_def by (simp add: ex_cfg_def)
  from t0 have c: "nsyscalls (xcp (cmn (tcbs (snd (up_vfork ex_cfg ex_ext ex_context ex_state_idle)) 0x200))) = 0"
    unfolding n by simp
  from ex_proceeds ex_idle_proceeds h n(2) a b c show ?thesis unfolding n(1) by simp
qed

subsection \<open>C5: cleanup on failure\<close>

text \<open>
  C5: whichever step fails, the call returns the error sentinel and the child is released
  exactly once, or was never allocated. If setup fails, the call returns the error and calls
  nothing else: there is nothing to clean up. If the stack allocation fails with the status
  \<open>ret\<close>, \<^verbatim>\<open>task_vforkabort\<close> is called exactly once, with \<open>- ret\<close>, as the last call
  before the error is returned, and the child is never started. If the start fails, the
  error is returned, the child has been released exactly once and is not scheduled. If the
  start succeeds, the child is scheduled exactly once and never released, and the call
  returns its task id.
\<close>

theorem C5_cleanup_exactly_once:
  assumes "up_vfork cfg ext context s = (out, s')"
  shows "(new_child ext (lr context AND NOT 1) = None
            \<longrightarrow> out = Returned ERROR
                \<and> new_events s s' = [Ev_task_vforksetup (lr context AND NOT 1)])
         \<and> (child_set_up ext context s c t0 \<and> sa_ret (requested_stack cfg ext s) \<noteq> OK
            \<longrightarrow> out = Returned ERROR
                \<and> filter is_abort (new_events s s')
                    = [Ev_task_vforkabort c (- sa_ret (requested_stack cfg ext s))]
                \<and> last (new_events s s') = Ev_task_vforkabort c (- sa_ret (requested_stack cfg ext s))
                \<and> filter is_scheduled (new_events s s') = []
                \<and> Ev_task_vforkstart c \<notin> set (new_events s s'))
         \<and> (vfork_proceeds cfg ext context s c t0 \<and> activate ext c < OK
            \<longrightarrow> out = Returned ERROR
                \<and> filter is_abort (new_events s s') = [Ev_task_vforkabort c (- activate ext c)]
                \<and> filter is_scheduled (new_events s s') = [])
         \<and> (vfork_proceeds cfg ext context s c t0 \<and> \<not> activate ext c < OK
            \<longrightarrow> out = Returned (pid (cmn t0))
                \<and> filter is_abort (new_events s s') = []
                \<and> filter is_scheduled (new_events s s') = [Ev_scheduled c])"
proof -
  have a: "out = Returned ERROR \<and> new_events s s' = [Ev_task_vforksetup (lr context AND NOT 1)]"
    if "new_child ext (lr context AND NOT 1) = None"
    using assms unfolding up_vfork_setup_fails[OF that]
    by (auto simp: new_events_def log_event_simps)
  have b: "out = Returned ERROR
                \<and> filter is_abort (new_events s s')
                    = [Ev_task_vforkabort c (- sa_ret (requested_stack cfg ext s))]
                \<and> last (new_events s s') = Ev_task_vforkabort c (- sa_ret (requested_stack cfg ext s))
                \<and> filter is_scheduled (new_events s s') = []
                \<and> Ev_task_vforkstart c \<notin> set (new_events s s')"
    if "child_set_up ext context s c t0" "sa_ret (requested_stack cfg ext s) \<noteq> OK"
    using assms unfolding up_vfork_alloc_fails[OF that]
    by (auto simp: new_events_def)
  have c: "out = Returned ERROR
                \<and> filter is_abort (new_events s s') = [Ev_task_vforkabort c (- activate ext c)]
                \<and> filter is_scheduled (new_events s s') = []"
    if "vfork_proceeds cfg ext context s c t0" "activate ext c < OK"
    using final_out[OF that(1) assms] final_new_events[OF that(1) assms] that(2) by auto
  have d: "out = Returned (pid (cmn t0))
                \<and> filter is_abort (new_events s s') = []
                \<and> filter is_scheduled (new_events s s') = [Ev_scheduled c]"
    if "vfork_proceeds cfg ext context s c t0" "\<not> activate ext c < OK"
    using final_out[OF that(1) assms] final_new_events[OF that(1) assms] that(2) by auto
  from a b c d show ?thesis by blast
qed

theorem C5_cleanup_exactly_once_witness:
  "new_child ex_ext_nosetup (lr ex_context AND NOT 1) = None
   \<and> fst (up_vfork ex_cfg ex_ext_nosetup ex_context ex_state) = Returned ERROR
   \<and> new_events ex_state (snd (up_vfork ex_cfg ex_ext_nosetup ex_context ex_state))
       = [Ev_task_vforksetup 0x8000]
   \<and> child_set_up ex_ext_nostack ex_context ex_state 0x200 ex_child
   \<and> sa_ret (requested_stack ex_cfg ex_ext_nostack ex_state) \<noteq> OK
   \<and> fst (up_vfork ex_cfg ex_ext_nostack ex_context ex_state) = Returned ERROR
   \<and> filter is_abort (new_events ex_state (snd (up_vfork ex_cfg ex_ext_nostack ex_context ex_state)))
       = [Ev_task_vforkabort 0x200 12]
   \<and> vfork_proceeds ex_cfg ex_ext_nostart ex_context ex_state 0x200 ex_child
   \<and> activate ex_ext_nostart 0x200 < OK
   \<and> fst (up_vfork ex_cfg ex_ext_nostart ex_context ex_state) = Returned ERROR
   \<and> filter is_abort (new_events ex_state (snd (up_vfork ex_cfg ex_ext_nostart ex_context ex_state)))
       = [Ev_task_vforkabort 0x200 11]
   \<and> filter is_scheduled (new_events ex_state (snd (up_vfork ex_cfg ex_ext_nostart ex_context ex_state)))
       = []
   \<and> vfork_proceeds ex_cfg ex_ext ex_context ex_state 0x200 ex_child
   \<and> \<not> activate ex_ext 0x200 < OK
   \<and> fst (up_vfork ex_cfg ex_ext ex_context ex_state) = Returned 7
   \<and> filter is_abort (new_events ex_state (snd (up_vfork ex_cfg ex_ext ex_context ex_state))) = []
   \<and> filter is_scheduled (new_events ex_state (snd (up_vfork ex_cfg ex_ext ex_context ex_state)))
       = [Ev_scheduled 0x200]"
proof -
  have a: "new_child ex_ext_nosetup (lr ex_context AND NOT 1) = None"
    "lr ex_context AND NOT 1 = 0x8000"
    by (simp_all add: ex_ext_nosetup_def ex_ext_def ex_context_def)
  have b: "child_set_up ex_ext_nostack ex_context ex_state 0x200 ex_child"
    "sa_ret (requested_stack ex_cfg ex_ext_nostack ex_state) \<noteq> OK"
    "- sa_ret (requested_stack ex_cfg ex_ext_nostack ex_state) = 12"
    by (simp_all add: child_set_up_def requested_stack_def ex_ext_nostack_def ex_ext_def
        this_task_def ex_state_def OK_def)
  have c: "vfork_proceeds ex_cfg ex_ext_nostart ex_context ex_state 0x200 ex_child"
    "activate ex_ext_nostart 0x200 < OK" "- activate ex_ext_nostart 0x200 = 11"
    by (simp_all add: vfork_proceeds_def child_set_up_def requested_stack_def DEBUGASSERT_def
      this_task_def OK_def ex_defs ex_ext_nostart_def)
  have d: "\<not> activate ex_ext 0x200 < OK" "pid (cmn ex_child) = 7"
    by (simp_all add: ex_ext_def OK_def ex_child_def)
  note ta = C5_cleanup_exactly_once[OF up_vfork_pair[of ex_cfg ex_ext_nosetup ex_context ex_state]]
  note tb = C5_cleanup_exactly_once[OF up_vfork_pair[of ex_cfg ex_ext_nostack ex_context ex_state], where c = "0x200" and ?t0.0 = ex_child]
  note tc = C5_cleanup_exactly_once[OF up_vfork_pair[of ex_cfg ex_ext_nostart ex_context ex_state], where c = "0x200" and ?t0.0 = ex_child]
  note td = C5_cleanup_exactly_once[OF up_vfork_pair[of ex_cfg ex_ext ex_context ex_state], where c = "0x200" and ?t0.0 = ex_child]
  from ta a have ra: "fst (up_vfork ex_cfg ex_ext_nosetup ex_context ex_state) = Returned ERROR
   \<and> new_events ex_state (snd (up_vfork ex_cfg ex_ext_nosetup ex_context ex_state))
       = [Ev_task_vforksetup 0x8000]"
    by metis
  from tb b have rb: "fst (up_vfork ex_cfg ex_ext_nostack ex_context ex_state) = Returned ERROR
   \<and> filter is_abort (new_events ex_state (snd (up_vfork ex_cfg ex_ext_nostack ex_context ex_state)))
       = [Ev_task_vforkabort 0x200 12]"
    by metis
  from tc c have rc: "fst (up_vfork ex_cfg ex_ext_nostart ex_context ex_state) = Returned ERROR
   \<and> filter is_abort (new_events ex_state (snd (up_vfork ex_cfg ex_ext_nostart ex_context ex_state)))
       = [Ev_task_vforkabort 0x200 11]
   \<and> filter is_scheduled (new_events ex_state (snd (up_vfork ex_cfg ex_ext_nostart ex_context ex_state)))
       = []"
    by metis
  from td d ex_proceeds have rd: "fst (up_vfork ex_cfg ex_ext ex_context ex_state) = Returned 7
   \<and> filter is_abort (new_events ex_state (snd (up_vfork ex_cfg ex_ext ex_context ex_state))) = []
   \<and> filter is_scheduled (new_events ex_state (snd (up_vfork ex_cfg ex_ext ex_context ex_state)))
       = [Ev_scheduled 0x200]"
    by metis
  from a(1) b(1,2) c(1,2) d(1) ex_proceeds ra rb rc rd show ?thesis by blast
qed

subsection \<open>C7: a captured stack pointer at or above the parent's top\<close>

text \<open>
  C7, as stated: every captured context whose stack pointer is not strictly below the
  parent's adjusted top ends the call in a failed assertion. In a build without
  \<^verbatim>\<open>CONFIG_DEBUG\<close> the assertion is compiled out: with the captured stack pointer \<open>0x2100\<close>
  and the parent's top \<open>0x2000\<close> the call returns the child's task id, having copied the
  wrapped-around count of \<open>0xFFFFFF00\<close> bytes.
\<close>

theorem C7_counterexample:
  "\<not> sp ex_context_high < adj_stack_ptr (cmn (tcbs ex_state (this_task ex_state)))
   \<and> fst (up_vfork ex_cfg_nodebug ex_ext ex_context_high ex_state) = Returned 7
   \<and> filter is_memcpy (new_events ex_state (snd (up_vfork ex_cfg_nodebug ex_ext ex_context_high ex_state)))
       = [Ev_memcpy 0x4100 0x2100 0xFFFFFF00]"
  by (simp add: ex_defs ex_more_defs run_defs new_events_def)

text \<open>
  C7, amended: once setup and the stack allocation have succeeded, in a build with
  \<^verbatim>\<open>CONFIG_DEBUG\<close> a captured stack pointer that is not strictly below the parent's
  adjusted top ends the call in a failed assertion: nothing is returned, no byte is copied,
  the child is neither released nor scheduled and its saved context is as setup left it.
  In every build, a captured stack pointer strictly below the parent's top passes the
  assertion, and the number of bytes copied is the positive difference
  \<open>parentTop - capturedSp\<close>, which does not wrap around.
\<close>

theorem C7_assertion_in_debug_builds:
  assumes "child_set_up ext context s c t0"
    and "sa_ret (requested_stack cfg ext s) = OK"
    and "up_vfork cfg ext context s = (out, s')"
  shows "(CONFIG_DEBUG cfg \<and> \<not> sp context < adj_stack_ptr (cmn (tcbs s (this_task s)))
            \<longrightarrow> out = AssertFailed
                \<and> filter is_memcpy (new_events s s') = []
                \<and> filter is_abort (new_events s s') = []
                \<and> filter is_scheduled (new_events s s') = []
                \<and> xcp (cmn (tcbs s' c)) = xcp (cmn t0))
         \<and> (sp context < adj_stack_ptr (cmn (tcbs s (this_task s)))
            \<longrightarrow> out \<noteq> AssertFailed
                \<and> filter is_memcpy (new_events s s')
                    = [Ev_memcpy (adj_stack_ptr (cmn (tcbs s' c))
                                    - (adj_stack_ptr (cmn (tcbs s (this_task s))) - sp context))
                         (sp context)
                         (adj_stack_ptr (cmn (tcbs s (this_task s))) - sp context)]
                \<and> unat (adj_stack_ptr (cmn (tcbs s (this_task s))) - sp context)
                    = unat (adj_stack_ptr (cmn (tcbs s (this_task s)))) - unat (sp context)
                \<and> 0 < unat (adj_stack_ptr (cmn (tcbs s (this_task s))) - sp context))"
proof -
  let ?pT = "adj_stack_ptr (cmn (tcbs s (this_task s)))"
  have fatal: "out = AssertFailed
                \<and> filter is_memcpy (new_events s s') = []
                \<and> filter is_abort (new_events s s') = []
                \<and> filter is_scheduled (new_events s s') = []
                \<and> xcp (cmn (tcbs s' c)) = xcp (cmn t0)"
    if d: "CONFIG_DEBUG cfg" and n: "\<not> sp context < ?pT"
  proof -
    have na: "\<not> DEBUGASSERT cfg (sp context < ?pT)" using d n by (simp add: DEBUGASSERT_def)
    have o: "out = AssertFailed" and s': "s' = before_transfer cfg ext context s c t0"
      using assms(3) unfolding up_vfork_assert_fails[OF assms(1,2) na] by simp_all
    obtain es where "trace (before_transfer cfg ext context s c t0) = trace s @
       [Ev_task_vforksetup (lr context AND NOT 1),
        Ev_up_create_stack c
          (adj_stack_size (cmn (tcbs s (this_task s))) + STACK_ALIGNMENT cfg - 1)
          (flags (cmn (tcbs s (this_task s))) AND TCB_FLAG_TTYPE_MASK cfg)] @ es"
      and "filter is_memcpy es = []" "filter is_abort es = []" "filter is_scheduled es = []"
      using before_transfer_trace by blast
    then have "filter is_memcpy (new_events s s') = []
                \<and> filter is_abort (new_events s s') = []
                \<and> filter is_scheduled (new_events s s') = []"
      unfolding s' by (auto dest: new_events_append)
    moreover have "xcp (cmn (tcbs s' c)) = xcp (cmn t0)"
      unfolding s' by (simp add: before_transfer_simps stack_allocated_def)
    ultimately show ?thesis using o by blast
  qed
  have goes: "out \<noteq> AssertFailed
                \<and> filter is_memcpy (new_events s s')
                    = [Ev_memcpy (adj_stack_ptr (cmn (tcbs s' c)) - (?pT - sp context))
                         (sp context) (?pT - sp context)]
                \<and> unat (?pT - sp context) = unat ?pT - unat (sp context)
                \<and> 0 < unat (?pT - sp context)"
    if l: "sp context < ?pT"
  proof -
    have p: "vfork_proceeds cfg ext context s c t0"
      using assms(1,2) l by (simp add: vfork_proceeds_def DEBUGASSERT_def)
    have "out \<noteq> AssertFailed" using final_out[OF p assms(3)] by simp
    moreover have "filter is_memcpy (new_events s s')
                    = [Ev_memcpy (adj_stack_ptr (cmn (tcbs s' c)) - (?pT - sp context))
                         (sp context) (?pT - sp context)]"
      using final_new_events[OF p assms(3)] by (auto simp: final_stack[OF p assms(3)])
    moreover have u: "unat (?pT - sp context) = unat ?pT - unat (sp context)"
      using l by (simp add: unat_sub)
    moreover have "0 < unat (?pT - sp context)"
      unfolding u using l by (simp add: word_less_nat_alt)
    ultimately show ?thesis by blast
  qed
  from fatal goes show ?thesis by blast
qed

theorem C7_assertion_in_debug_builds_witness:
  "child_set_up ex_ext ex_context_high ex_state 0x200 ex_child
   \<and> child_set_up ex_ext ex_context ex_state 0x200 ex_child
   \<and> sa_ret (requested_stack ex_cfg ex_ext ex_state) = OK
   \<and> CONFIG_DEBUG ex_cfg
   \<and> \<not> sp ex_context_high < adj_stack_ptr (cmn (tcbs ex_state (this_task ex_state)))
   \<and> sp ex_context < adj_stack_ptr (cmn (tcbs ex_state (this_task ex_state)))
   \<and> fst (up_vfork ex_cfg ex_ext ex_context_high ex_state) = AssertFailed
   \<and> filter is_memcpy (new_events ex_state (snd (up_vfork ex_cfg ex_ext ex_context_high ex_state))) = []
   \<and> fst (up_vfork ex_cfg ex_ext ex_context ex_state) \<noteq> AssertFailed
   \<and> unat (adj_stack_ptr (cmn (tcbs ex_state (this_task ex_state))) - sp ex_context) = 0x100"
proof -
  have h1: "child_set_up ex_ext ex_context_high ex_state 0x200 ex_child"
    "child_set_up ex_ext ex_context ex_state 0x200 ex_child"
    by (simp_all add: child_set_up_def ex_ext_def ex_context_high_def ex_context_def this_task_def
        ex_state_def)
  have h2: "sa_ret (requested_stack ex_cfg ex_ext ex_state) = OK"
    by (simp add: requested_stack_def ex_ext_def OK_def)
  have h3: "CONFIG_DEBUG ex_cfg" by (simp add: ex_cfg_def)
  have h4: "\<not> sp ex_context_high < adj_stack_ptr (cmn (tcbs ex_state (this_task ex_state)))"
    "sp ex_context < adj_stack_ptr (cmn (tcbs ex_state (this_task ex_state)))"
    "unat (adj_stack_ptr (cmn (tcbs ex_state (this_task ex_state)))) - unat (sp ex_context) = 0x100"
    unfolding ex_parent_stack by (simp_all add: ex_context_high_def ex_context_def)
  note ta = C7_assertion_in_debug_builds[OF h1(1) h2 up_vfork_pair]
  note tb = C7_assertion_in_debug_builds[OF h1(2) h2 up_vfork_pair]
  from ta h3 h4(1) have a: "fst (up_vfork ex_cfg ex_ext ex_context_high ex_state) = AssertFailed
   \<and> filter is_memcpy (new_events ex_state (snd (up_vfork ex_cfg ex_ext ex_context_high ex_state))) = []"
    by blast
  from tb h4(2) have b: "fst (up_vfork ex_cfg ex_ext ex_context ex_state) \<noteq> AssertFailed
     \<and> unat (adj_stack_ptr (cmn (tcbs ex_state (this_task ex_state))) - sp ex_context)
        = unat (adj_stack_ptr (cmn (tcbs ex_state (this_task ex_state)))) - unat (sp ex_context)"
    by blast
  from h1 h2 h3 h4 a b show ?thesis by simp
qed

subsection \<open>C9: what the call writes\<close>

text \<open>
  C9, as stated: no call changes the parent's stack memory. Let the child's stack
  \<open>[0x2000, 0x3000)\<close> lie right above the parent's \<open>[0x1000, 0x2000)\<close> and let the
  captured stack pointer be \<open>0x800\<close>, below the parent's stack: the assertion holds, the copy
  of \<open>0x1800\<close> bytes starts at \<open>0x1800\<close>, and the byte at \<open>0x1800\<close> of the parent's stack
  is overwritten.
\<close>

theorem C9_counterexample:
  "in_stack_region (cmn (tcbs ex_state (this_task ex_state))) 0x1800
   \<and> mem (snd (up_vfork ex_cfg ex_ext_adjacent ex_context_low ex_state)) 0x1800
       \<noteq> mem ex_state 0x1800"
  by (simp add: ex_defs ex_more_defs run_defs in_stack_region_def)

text \<open>
  C9, amended: in a call that gets to the transfer with the captured stack pointer inside
  the parent's stack, a child stack that is well formed and has at least as much room below
  its top as the parent's, the TCB of the parent and every TCB other than the child's are
  left as they were, and every byte of memory outside the child's stack region keeps its
  value; so the parent's stack memory is unchanged whenever the two stack regions do not
  overlap. The captured context is passed by value and cannot be written.
\<close>

theorem C9_writes_confined_to_child:
  assumes "vfork_proceeds cfg ext context s c t0"
    and "sp_in_stack (cmn (tcbs s (this_task s))) (sp context)"
    and "stack_ok (cmn (tcbs s' c))"
    and "as_deep_as (cmn (tcbs s' c)) (cmn (tcbs s (this_task s)))"
    and "up_vfork cfg ext context s = (out, s')"
  shows "tcbs s' (this_task s) = tcbs s (this_task s)
         \<and> (\<forall>q. q \<noteq> c \<longrightarrow> tcbs s' q = tcbs s q)
         \<and> (\<forall>a. \<not> in_stack_region (cmn (tcbs s' c)) a \<longrightarrow> mem s' a = mem s a)
         \<and> ((\<forall>a. in_stack_region (cmn (tcbs s (this_task s))) a \<longrightarrow> \<not> in_stack_region (cmn (tcbs s' c)) a)
              \<longrightarrow> (\<forall>a. in_stack_region (cmn (tcbs s (this_task s))) a \<longrightarrow> mem s' a = mem s a))"
proof -
  let ?pT = "adj_stack_ptr (cmn (tcbs s (this_task s)))"
  let ?pA = "stack_alloc_ptr (cmn (tcbs s (this_task s)))"
  let ?cT = "adj_stack_ptr (cmn (tcbs s' c))"
  let ?cA = "stack_alloc_ptr (cmn (tcbs s' c))"
  let ?cS = "adj_stack_size (cmn (tcbs s' c))"
  let ?n = "?pT - sp context"
  let ?newsp = "?cT - ?n"
  have h: "?pA \<le> sp context" "sp context < ?pT" "unat ?cA \<le> unat ?cT" "unat ?cT \<le> unat ?cA + unat ?cS"
    "unat ?pT - unat ?pA \<le> unat ?cT - unat ?cA"
    using assms(2,3,4) by (simp_all add: sp_in_stack_def stack_ok_def as_deep_as_def)
  note b = child_sp_bounds[OF h]
  have m: "mem s' a = (if a - ?newsp < ?n then mem s (sp context + (a - ?newsp)) else mem s a)" for a
    using final_mem[OF assms(1,5)] by (simp add: final_stack[OF assms(1,5)])
  have a: "unat ?pA \<le> unat (sp context)" "unat (sp context) < unat ?pT"
    using h(1,2) by (simp_all add: word_le_nat_alt word_less_nat_alt)
  have top: "unat ?newsp + unat ?n = unat ?cT"
    unfolding b(1,2) using a h(3,5) by linarith
  have "unat ?cT < 2 ^ 32" using unsigned_less[of ?cT] by simp
  then have sum: "unat ?newsp + unat ?n \<le> 2 ^ 32" unfolding top by simp
  have inside: "in_stack_region (cmn (tcbs s' c)) a" if "a - ?newsp < ?n" for a
    using copy_range[OF that sum] b(3) h(4) unfolding top in_stack_region_def by linarith
  have outside: "mem s' a = mem s a" if "\<not> in_stack_region (cmn (tcbs s' c)) a" for a
  proof -
    have "\<not> a - ?newsp < ?n" using that inside[of a] by blast
    then show ?thesis unfolding m by (simp only: if_False)
  qed
  have others: "tcbs s' q = tcbs s q" if "q \<noteq> c" for q
    using final_other[OF assms(1,5) that] .
  from final_parent[OF assms(1,5)] others outside show ?thesis by blast
qed

theorem C9_writes_confined_to_child_witness:
  "vfork_proceeds ex_cfg ex_ext ex_context ex_state 0x200 ex_child
   \<and> sp_in_stack (cmn (tcbs ex_state (this_task ex_state))) (sp ex_context)
   \<and> stack_ok (cmn (tcbs (snd (up_vfork ex_cfg ex_ext ex_context ex_state)) 0x200))
   \<and> as_deep_as (cmn (tcbs (snd (up_vfork ex_cfg ex_ext ex_context ex_state)) 0x200))
        (cmn (tcbs ex_state (this_task ex_state)))
   \<and> (0x100 :: u32) \<noteq> 0x200
   \<and> tcbs (snd (up_vfork ex_cfg ex_ext ex_context ex_state)) 0x100 = tcbs ex_state 0x100
   \<and> in_stack_region (cmn (tcbs ex_state (this_task ex_state))) 0x1F00
   \<and> \<not> in_stack_region (cmn (tcbs (snd (up_vfork ex_cfg ex_ext ex_context ex_state)) 0x200)) 0x1F00
   \<and> mem (snd (up_vfork ex_cfg ex_ext ex_context ex_state)) 0x1F00 = mem ex_state 0x1F00"
proof -
  note t = C9_writes_confined_to_child[OF ex_proceeds ex_valid(1,3,4) up_vfork_pair]
  have r: "in_stack_region (cmn (tcbs ex_state (this_task ex_state))) 0x1F00"
    "\<not> in_stack_region (cmn (tcbs (snd (up_vfork ex_cfg ex_ext ex_context ex_state)) 0x200)) 0x1F00"
    unfolding in_stack_region_def ex_final_child_stack ex_parent_stack by simp_all
  have disj: "\<forall>a. in_stack_region (cmn (tcbs ex_state (this_task ex_state))) a
        \<longrightarrow> \<not> in_stack_region (cmn (tcbs (snd (up_vfork ex_cfg ex_ext ex_context ex_state)) 0x200)) a"
    unfolding in_stack_region_def ex_final_child_stack ex_parent_stack by simp
  have ne: "(0x100 :: u32) \<noteq> 0x200" by simp
  from t ne have p: "tcbs (snd (up_vfork ex_cfg ex_ext ex_context ex_state)) 0x100 = tcbs ex_state 0x100"
    by blast
  from t disj r(1) have m: "mem (snd (up_vfork ex_cfg ex_ext ex_context ex_state)) 0x1F00 = mem ex_state 0x1F00"
    by blast
  from ex_proceeds ex_valid(1,3,4) ne p r m show ?thesis by blast
qed

end
